theory Spec2Isabelle
  imports Main
begin

chapter \<open>The gorest-translatable plugin\<close>

text \<open>
  The repository holds two near-duplicate implementations of the same plugin:
  \<^item> the locale-aware one (table \<open>translations\<close>; config with \<open>AllowedTypes\<close> and
    \<open>SupportedLocales\<close>; the fiber resource with its own SQL), and
  \<^item> the earlier one without locales (table \<open>translatable\<close>; config with
    \<open>AllowedTables\<close>; a net/http handler over a \<open>Repository\<close>).
  Both are embedded. Names of the second carry the prefix \<open>Tbl\<close> or \<open>tbl_\<close> where
  the Go names coincide.

  Go strings are byte sequences, so a string is a \<open>char list\<close> (a \<open>char\<close> is one byte)
  and \<open>len\<close> is \<open>length\<close>. Go's \<open>int\<close> is used for comparisons only, never for
  arithmetic that could overflow, and is an \<open>int\<close>.  A pointer that may be \<open>nil\<close> is an
  \<open>option\<close>.  A method with a pointer receiver that assigns to its fields returns the
  updated record next to its result.
\<close>

section \<open>Errors\<close>

text \<open>
  A Go \<open>error\<close>: a message made by \<open>errors.New\<close>, the drivers' no-rows sentinels, and
  \<open>fmt.Errorf("<prefix>: %w", err)\<close>, which wraps an error behind a prefix.
\<close>

datatype error =
    New string
  | sql_ErrNoRows
  | pgx_ErrNoRows
  | Wrap string error

fun Error :: "error \<Rightarrow> string" where
  "Error (New m) = m"
| "Error sql_ErrNoRows = ''sql: no rows in result set''"
| "Error pgx_ErrNoRows = ''no rows in result set''"
| "Error (Wrap p e) = p @ Error e"

fun errors_Is :: "error \<Rightarrow> error \<Rightarrow> bool" where
  "errors_Is (Wrap p e) target = (Wrap p e = target \<or> errors_Is e target)"
| "errors_Is e target = (e = target)"

section \<open>Library functions the code calls\<close>

subsection \<open>\<open>strings.TrimSpace\<close>\<close>

text \<open>
  \<open>strings.TrimSpace\<close> removes all leading and trailing white space, as defined by
  Unicode, from a UTF-8 string: first from the left, then from the right of what is
  left.  \<open>white_space\<close> lists the UTF-8 encodings of the code points
  \<open>unicode.IsSpace\<close> accepts: U+0009 to U+000D, U+0020, U+0085, U+00A0, U+1680, U+2000
  to U+200A, U+2028, U+2029, U+202F, U+205F and U+3000.  The decoder accepts shortest
  encodings only, and a byte sequence that is not valid UTF-8 decodes to U+FFFD, which is
  not white space.
\<close>

definition white_space :: "string list" where
  "white_space =
    [[CHR 0x09], [CHR 0x0A], [CHR 0x0B], [CHR 0x0C], [CHR 0x0D], [CHR 0x20],
     [CHR 0xC2, CHR 0x85], [CHR 0xC2, CHR 0xA0],
     [CHR 0xE1, CHR 0x9A, CHR 0x80],
     [CHR 0xE2, CHR 0x80, CHR 0x80], [CHR 0xE2, CHR 0x80, CHR 0x81],
     [CHR 0xE2, CHR 0x80, CHR 0x82], [CHR 0xE2, CHR 0x80, CHR 0x83],
     [CHR 0xE2, CHR 0x80, CHR 0x84], [CHR 0xE2, CHR 0x80, CHR 0x85],
     [CHR 0xE2, CHR 0x80, CHR 0x86], [CHR 0xE2, CHR 0x80, CHR 0x87],
     [CHR 0xE2, CHR 0x80, CHR 0x88], [CHR 0xE2, CHR 0x80, CHR 0x89],
     [CHR 0xE2, CHR 0x80, CHR 0x8A],
     [CHR 0xE2, CHR 0x80, CHR 0xA8], [CHR 0xE2, CHR 0x80, CHR 0xA9],
     [CHR 0xE2, CHR 0x80, CHR 0xAF],
     [CHR 0xE2, CHR 0x81, CHR 0x9F],
     [CHR 0xE3, CHR 0x80, CHR 0x80]]"

text \<open>The number of bytes of the first of the encodings \<open>es\<close> that \<open>s\<close> starts with;
  0 when it starts with none.\<close>

fun starts_with :: "string list \<Rightarrow> string \<Rightarrow> nat" where
  "starts_with [] s = 0"
| "starts_with (e # es) s =
     (if e \<noteq> [] \<and> take (length e) s = e then length e else starts_with es s)"

fun trim_leading :: "string list \<Rightarrow> string \<Rightarrow> string" where
  "trim_leading es [] = []"
| "trim_leading es (c # cs) =
     (if starts_with es (c # cs) = 0 then c # cs
      else trim_leading es (drop (starts_with es (c # cs) - 1) cs))"

definition TrimLeftSpace :: "string \<Rightarrow> string" where
  "TrimLeftSpace s = trim_leading white_space s"

definition TrimRightSpace :: "string \<Rightarrow> string" where
  "TrimRightSpace s = rev (trim_leading (map rev white_space) (rev s))"

definition TrimSpace :: "string \<Rightarrow> string" where
  "TrimSpace s = TrimRightSpace (TrimLeftSpace s)"

subsection \<open>\<open>html.EscapeString\<close>\<close>

text \<open>
  \<open>html.EscapeString\<close> replaces exactly the five bytes \<open>&\<close>, \<open>'\<close>, \<open><\<close>, \<open>>\<close> and
  \<open>"\<close> by \<open>&amp;\<close>, \<open>&#39;\<close>, \<open>&lt;\<close>, \<open>&gt;\<close> and \<open>&#34;\<close>.
\<close>

definition htmlEscaper :: "char \<Rightarrow> string" where
  "htmlEscaper c =
     (if c = CHR ''&'' then ''&amp;''
      else if c = CHR 0x27 then ''&#39;''
      else if c = CHR ''<'' then ''&lt;''
      else if c = CHR ''>'' then ''&gt;''
      else if c = CHR 0x22 then ''&#34;''
      else [c])"

definition EscapeString :: "string \<Rightarrow> string" where
  "EscapeString s = concat (map htmlEscaper s)"

subsection \<open>\<open>strconv.Itoa\<close>\<close>

fun digits :: "nat \<Rightarrow> string" where
  "digits n =
     (if n < 10 then [''0123456789'' ! n]
      else digits (n div 10) @ [''0123456789'' ! (n mod 10)])"

definition Itoa :: "int \<Rightarrow> string" where
  "Itoa i = (if i < 0 then CHR ''-'' # digits (nat (- i)) else digits (nat i))"

subsection \<open>UUIDs\<close>

text \<open>
  A \<open>uuid.UUID\<close> is an array of 16 bytes.  \<open>uuid.Parse\<close> belongs to the package
  \<open>github.com/google/uuid\<close>; every function that calls it takes it as its first
  argument \<open>parse\<close>, with \<open>Inl\<close> for a parse error.  \<open>uuid.New()\<close> and
  \<open>time.Now()\<close> are arguments as well.
\<close>

datatype uuid = UUID string

type_synonym uuid_Parse = "string \<Rightarrow> error + uuid"

type_synonym time = int

subsection \<open>\<open>strconv.Atoi\<close>\<close>

text \<open>
  \<open>strconv.Atoi\<close> reads an optional sign and at least one decimal digit, and fails
  on anything else and on a value outside the 64-bit range.  The callers ignore what the
  error says, so it is \<open>None\<close>.
\<close>

definition is_digit :: "char \<Rightarrow> bool" where
  "is_digit c = (48 \<le> (of_char c :: nat) \<and> (of_char c :: nat) \<le> 57)"

fun digits_value :: "int \<Rightarrow> string \<Rightarrow> int" where
  "digits_value acc [] = acc"
| "digits_value acc (c # cs) = digits_value (acc * 10 + (int (of_char c) - 48)) cs"

definition Atoi :: "string \<Rightarrow> int option" where
  "Atoi s =
     (let neg = (case s of c # _ \<Rightarrow> c = CHR ''-'' | [] \<Rightarrow> False);
          ds = (case s of c # cs \<Rightarrow> if c = CHR ''+'' \<or> c = CHR ''-'' then cs else s | [] \<Rightarrow> s)
      in if ds = [] \<or> \<not> list_all is_digit ds then None
         else let v = (if neg then - digits_value 0 ds else digits_value 0 ds)
              in if v < - (2 ^ 63) \<or> v > 2 ^ 63 - 1 then None else Some v)"

section \<open>Configuration\<close>

subsection \<open>The locale-aware configuration\<close>

text \<open>The field \<open>Database\<close>, a handle the validation never reads or writes, is left out.\<close>

record Config =
  AllowedTypes :: "string list"
  SupportedLocales :: "string list"
  DefaultLocale :: string
  PaginationLimit :: int
  MaxPaginationLimit :: int
  MaxContentLength :: int

text \<open>The loop of \<open>validateAllowedTypes\<close> over the list, with its map \<open>seen\<close>.\<close>

fun allowedTypes_loop :: "(string \<Rightarrow> bool) \<Rightarrow> string list \<Rightarrow> error option" where
  "allowedTypes_loop seen [] = None"
| "allowedTypes_loop seen (t # ts) =
     (if t = [] then Some (New ''allowed_types cannot contain empty strings'')
      else if seen t then Some (New (''duplicate type in allowed_types: '' @ t))
      else allowedTypes_loop (seen(t := True)) ts)"

definition validateAllowedTypes :: "Config \<Rightarrow> error option" where
  "validateAllowedTypes c =
     (if length (AllowedTypes c) = 0 then Some (New ''allowed_types cannot be empty'')
      else allowedTypes_loop (\<lambda>_. False) (AllowedTypes c))"

fun supportedLocales_loop :: "(string \<Rightarrow> bool) \<Rightarrow> string list \<Rightarrow> error option" where
  "supportedLocales_loop seen [] = None"
| "supportedLocales_loop seen (l # ls) =
     (if l = [] then Some (New ''supported_locales cannot contain empty strings'')
      else if seen l then Some (New (''duplicate locale in supported_locales: '' @ l))
      else supportedLocales_loop (seen(l := True)) ls)"

definition validateSupportedLocales :: "Config \<Rightarrow> error option" where
  "validateSupportedLocales c =
     (if length (SupportedLocales c) = 0 then Some (New ''supported_locales cannot be empty'')
      else supportedLocales_loop (\<lambda>_. False) (SupportedLocales c))"

fun defaultLocale_loop :: "string \<Rightarrow> string list \<Rightarrow> error option" where
  "defaultLocale_loop d [] = Some (New ''default_locale must be one of the supported_locales'')"
| "defaultLocale_loop d (l # ls) = (if l = d then None else defaultLocale_loop d ls)"

definition validateDefaultLocale :: "Config \<Rightarrow> error option" where
  "validateDefaultLocale c =
     (if DefaultLocale c = [] then Some (New ''default_locale cannot be empty'')
      else defaultLocale_loop (DefaultLocale c) (SupportedLocales c))"

definition applyDefaults :: "Config \<Rightarrow> Config" where
  "applyDefaults c =
     (let c1 = (if PaginationLimit c \<le> 0 then c\<lparr>PaginationLimit := 20\<rparr> else c);
          c2 = (if MaxPaginationLimit c1 \<le> 0 then c1\<lparr>MaxPaginationLimit := 100\<rparr> else c1)
      in if MaxContentLength c2 \<le> 0 then c2\<lparr>MaxContentLength := 10240\<rparr> else c2)"

text \<open>\<open>Config.Validate\<close>: the error (\<open>None\<close> for \<open>nil\<close>) and the configuration as the
  call leaves it.\<close>

definition Config_Validate :: "Config \<Rightarrow> error option \<times> Config" where
  "Config_Validate c =
     (case validateAllowedTypes c of
        Some err \<Rightarrow> (Some err, c)
      | None \<Rightarrow>
     (case validateSupportedLocales c of
        Some err \<Rightarrow> (Some err, c)
      | None \<Rightarrow>
     (case validateDefaultLocale c of
        Some err \<Rightarrow> (Some err, c)
      | None \<Rightarrow>
        (let c' = applyDefaults c in
         if MaxContentLength c' < 1 \<or> MaxContentLength c' > 1048576
         then (Some (New ''max_content_length must be between 1 and 1048576 bytes''), c')
         else (None, c')))))"

text \<open>The loop \<open>for _, x := range xs { if x == s { return true } }; return false\<close> of
  the membership predicates.\<close>

fun range_has :: "string list \<Rightarrow> string \<Rightarrow> bool" where
  "range_has [] s = False"
| "range_has (x # xs) s = (if x = s then True else range_has xs s)"

definition IsAllowedType :: "Config \<Rightarrow> string \<Rightarrow> bool" where
  "IsAllowedType c typeName = range_has (AllowedTypes c) typeName"

definition IsSupportedLocale :: "Config \<Rightarrow> string \<Rightarrow> bool" where
  "IsSupportedLocale c locale = range_has (SupportedLocales c) locale"

definition DefaultConfig :: Config where
  "DefaultConfig =
     \<lparr>AllowedTypes = [''post''], SupportedLocales = [''en'', ''fr'', ''es''],
      DefaultLocale = ''en'', PaginationLimit = 20, MaxPaginationLimit = 100,
      MaxContentLength = 10240\<rparr>"

subsection \<open>The configuration without locales\<close>

record TblConfig =
  AllowedTables :: "string list"
  TblMaxContentLength :: int

fun allowedTables_loop :: "(string \<Rightarrow> bool) \<Rightarrow> string list \<Rightarrow> error option" where
  "allowedTables_loop seen [] = None"
| "allowedTables_loop seen (t # ts) =
     (if t = [] then Some (New ''allowed_tables cannot contain empty strings'')
      else if seen t then Some (New (''duplicate table name in allowed_tables: '' @ t))
      else allowedTables_loop (seen(t := True)) ts)"

definition TblConfig_Validate :: "TblConfig \<Rightarrow> error option \<times> TblConfig" where
  "TblConfig_Validate c =
     (if length (AllowedTables c) = 0 then (Some (New ''allowed_tables cannot be empty''), c)
      else
     (case allowedTables_loop (\<lambda>_. False) (AllowedTables c) of
        Some err \<Rightarrow> (Some err, c)
      | None \<Rightarrow>
        (let c' = (if TblMaxContentLength c = 0 then c\<lparr>TblMaxContentLength := 10240\<rparr> else c) in
         if TblMaxContentLength c' < 1 \<or> TblMaxContentLength c' > 1048576
         then (Some (New ''max_content_length must be between 1 and 1048576 bytes''), c')
         else (None, c'))))"

definition IsAllowedTable :: "TblConfig \<Rightarrow> string \<Rightarrow> bool" where
  "IsAllowedTable c tableName = range_has (AllowedTables c) tableName"

section \<open>Requests and entities\<close>

subsection \<open>The locale-aware models\<close>

record Translatable =
  ID :: uuid
  UserID :: "uuid option"
  TranslatableID :: uuid
  TranslatableType :: string
  Locale :: string
  Content :: string
  UpdatedAt :: "time option"
  CreatedAt :: time

text \<open>The field \<open>Translatable\<close> of the struct \<open>Translatable\<close> is \<open>TranslatableType\<close>
  here. The fields of the requests carry the prefix \<open>c_\<close> (create), \<open>u_\<close> (update) and
  \<open>q_\<close> (query).\<close>

record CreateTranslatableRequest =
  c_TranslatableID :: string
  c_Translatable :: string
  c_Locale :: string
  c_Content :: string

record UpdateTranslatableRequest =
  u_Locale :: string
  u_Content :: string

definition Create_Validate ::
  "uuid_Parse \<Rightarrow> Config \<Rightarrow> CreateTranslatableRequest
     \<Rightarrow> error option \<times> CreateTranslatableRequest" where
  "Create_Validate parse config r =
     (case parse (c_TranslatableID r) of
        Inl err \<Rightarrow> (Some (New ''translatable_id must be a valid UUID''), r)
      | Inr _ \<Rightarrow>
        if \<not> IsAllowedType config (c_Translatable r)
        then (Some (New ''translatable type is not allowed''), r)
        else if \<not> IsSupportedLocale config (c_Locale r)
        then (Some (New ''locale is not supported''), r)
        else
          (let r1 = r\<lparr>c_Content := TrimSpace (c_Content r)\<rparr> in
           if c_Content r1 = [] then (Some (New ''content cannot be empty''), r1)
           else if int (length (c_Content r1)) > MaxContentLength config
           then (Some (New ''content exceeds maximum length''), r1)
           else (None, r1\<lparr>c_Content := EscapeString (c_Content r1)\<rparr>)))"

definition Update_Validate ::
  "Config \<Rightarrow> UpdateTranslatableRequest \<Rightarrow> error option \<times> UpdateTranslatableRequest" where
  "Update_Validate config r =
     (if \<not> IsSupportedLocale config (u_Locale r)
      then (Some (New ''locale is not supported''), r)
      else
        (let r1 = r\<lparr>u_Content := TrimSpace (u_Content r)\<rparr> in
         if u_Content r1 = [] then (Some (New ''content cannot be empty''), r1)
         else if int (length (u_Content r1)) > MaxContentLength config
         then (Some (New ''content exceeds maximum length''), r1)
         else (None, r1\<lparr>u_Content := EscapeString (u_Content r1)\<rparr>)))"

definition ToTranslatable ::
  "uuid_Parse \<Rightarrow> uuid \<Rightarrow> time \<Rightarrow> CreateTranslatableRequest \<Rightarrow> uuid option
     \<Rightarrow> error + Translatable" where
  "ToTranslatable parse newID now r userID =
     (case parse (c_TranslatableID r) of
        Inl err \<Rightarrow> Inl err
      | Inr translatableID \<Rightarrow>
          Inr \<lparr>ID = newID, UserID = userID, TranslatableID = translatableID,
               TranslatableType = c_Translatable r, Locale = c_Locale r,
               Content = c_Content r, UpdatedAt = None, CreatedAt = now\<rparr>)"

record QueryParams =
  q_TranslatableID :: "uuid option"
  q_Translatable :: "string option"
  q_Locale :: "string option"
  q_UserID :: "uuid option"
  Limit :: int
  Offset :: int

definition QueryParams_Validate ::
  "Config \<Rightarrow> QueryParams \<Rightarrow> error option \<times> QueryParams" where
  "QueryParams_Validate config q =
     (let q1 = (if Limit q = 0 then q\<lparr>Limit := PaginationLimit config\<rparr> else q) in
      if Limit q1 < 1 \<or> Limit q1 > MaxPaginationLimit config
      then (Some (New ''limit out of range''), q1)
      else if Offset q1 < 0 then (Some (New ''offset must be non-negative''), q1)
      else
        (case q_Locale q1 of
           Some locale \<Rightarrow>
             if \<not> IsSupportedLocale config locale
             then (Some (New ''locale is not supported''), q1)
             else (None, q1)
         | None \<Rightarrow> (None, q1)))"

subsection \<open>The models without locales\<close>

record TblTranslatable =
  tbl_ID :: uuid
  tbl_UserID :: "uuid option"
  tbl_TranslatableID :: uuid
  tbl_TranslatableType :: string
  tbl_Content :: string
  tbl_UpdatedAt :: "time option"
  tbl_CreatedAt :: time

record TblCreateTranslatableRequest =
  tc_TranslatableID :: string
  tc_Translatable :: string
  tc_Content :: string

record TblUpdateTranslatableRequest =
  tu_Content :: string

definition Tbl_Create_Validate ::
  "uuid_Parse \<Rightarrow> TblConfig \<Rightarrow> TblCreateTranslatableRequest
     \<Rightarrow> error option \<times> TblCreateTranslatableRequest" where
  "Tbl_Create_Validate parse config r =
     (case parse (tc_TranslatableID r) of
        Inl err \<Rightarrow> (Some (New ''translatable_id must be a valid UUID''), r)
      | Inr _ \<Rightarrow>
        if \<not> IsAllowedTable config (tc_Translatable r)
        then (Some (New ''translatable type is not allowed''), r)
        else
          (let r1 = r\<lparr>tc_Content := TrimSpace (tc_Content r)\<rparr> in
           if tc_Content r1 = [] then (Some (New ''content cannot be empty''), r1)
           else if int (length (tc_Content r1)) > TblMaxContentLength config
           then (Some (New ''content exceeds maximum length''), r1)
           else (None, r1\<lparr>tc_Content := EscapeString (tc_Content r1)\<rparr>)))"

definition Tbl_Update_Validate ::
  "TblConfig \<Rightarrow> TblUpdateTranslatableRequest
     \<Rightarrow> error option \<times> TblUpdateTranslatableRequest" where
  "Tbl_Update_Validate config r =
     (let r1 = r\<lparr>tu_Content := TrimSpace (tu_Content r)\<rparr> in
      if tu_Content r1 = [] then (Some (New ''content cannot be empty''), r1)
      else if int (length (tu_Content r1)) > TblMaxContentLength config
      then (Some (New ''content exceeds maximum length''), r1)
      else (None, r1\<lparr>tu_Content := EscapeString (tu_Content r1)\<rparr>))"

definition Tbl_ToTranslatable ::
  "uuid_Parse \<Rightarrow> uuid \<Rightarrow> time \<Rightarrow> TblCreateTranslatableRequest \<Rightarrow> uuid option
     \<Rightarrow> error + TblTranslatable" where
  "Tbl_ToTranslatable parse newID now r userID =
     (case parse (tc_TranslatableID r) of
        Inl err \<Rightarrow> Inl err
      | Inr translatableID \<Rightarrow>
          Inr \<lparr>tbl_ID = newID, tbl_UserID = userID, tbl_TranslatableID = translatableID,
               tbl_TranslatableType = tc_Translatable r, tbl_Content = tc_Content r,
               tbl_UpdatedAt = None, tbl_CreatedAt = now\<rparr>)"

record TblQueryParams =
  tq_TranslatableID :: "uuid option"
  tq_Translatable :: "string option"
  tq_UserID :: "uuid option"
  tq_Limit :: int
  tq_Offset :: int

definition Tbl_QueryParams_Validate :: "TblQueryParams \<Rightarrow> error option \<times> TblQueryParams" where
  "Tbl_QueryParams_Validate q =
     (let q1 = (if tq_Limit q = 0 then q\<lparr>tq_Limit := 20\<rparr> else q) in
      if tq_Limit q1 < 1 \<or> tq_Limit q1 > 100
      then (Some (New ''limit must be between 1 and 100''), q1)
      else if tq_Offset q1 < 0 then (Some (New ''offset must be non-negative''), q1)
      else (None, q1))"

section \<open>The database\<close>

text \<open>
  The database is the interface the code calls (\<open>Exec\<close>, \<open>QueryRow\<close>, \<open>Query\<close>; in the
  repository's tests a record of functions as well).  Its state is of any type \<open>'d\<close>.
  \<^item> \<open>Exec\<close> gives an error, or a result whose \<open>RowsAffected()\<close> is an error or a count;
  \<^item> \<open>QueryRow\<close> stands for \<open>QueryRow(...).Scan(...)\<close> into the fields of one entity
    \<open>'r\<close>, and \<open>QueryRowInt\<close> for the scan into one \<open>int\<close>;
  \<^item> \<open>Query\<close> gives an error or the rows: what \<open>Scan\<close> gives for each row \<open>Next()\<close>
    reaches, and what \<open>Err()\<close> gives in the end.
  The request's \<open>context.Context\<close> is left out.
\<close>

datatype sqlarg =
    ArgUUID uuid
  | ArgUUIDPtr "uuid option"
  | ArgString string
  | ArgInt int
  | ArgTime time

record 'r Rows =
  rows_Scan :: "(error + 'r) list"
  rows_Err :: "error option"

record ('d, 'r) Database =
  Exec :: "string \<Rightarrow> sqlarg list \<Rightarrow> 'd \<Rightarrow> (error + (error + int)) \<times> 'd"
  QueryRow :: "string \<Rightarrow> sqlarg list \<Rightarrow> 'd \<Rightarrow> (error + 'r) \<times> 'd"
  QueryRowInt :: "string \<Rightarrow> sqlarg list \<Rightarrow> 'd \<Rightarrow> (error + int) \<times> 'd"
  Query :: "string \<Rightarrow> sqlarg list \<Rightarrow> 'd \<Rightarrow> (error + 'r Rows) \<times> 'd"

text \<open>The world a request runs in: the state of the database and the statements issued
  so far, each with its arguments, in order.\<close>

record 'd world =
  db_state :: 'd
  issued :: "(string \<times> sqlarg list) list"

definition db_Exec ::
  "('d, 'r) Database \<Rightarrow> string \<Rightarrow> sqlarg list \<Rightarrow> 'd world
     \<Rightarrow> (error + (error + int)) \<times> 'd world" where
  "db_Exec db query args w =
     (case Exec db query args (db_state w) of
        (res, d) \<Rightarrow> (res, \<lparr>db_state = d, issued = issued w @ [(query, args)]\<rparr>))"

definition db_QueryRow ::
  "('d, 'r) Database \<Rightarrow> string \<Rightarrow> sqlarg list \<Rightarrow> 'd world \<Rightarrow> (error + 'r) \<times> 'd world" where
  "db_QueryRow db query args w =
     (case QueryRow db query args (db_state w) of
        (res, d) \<Rightarrow> (res, \<lparr>db_state = d, issued = issued w @ [(query, args)]\<rparr>))"

definition db_QueryRowInt ::
  "('d, 'r) Database \<Rightarrow> string \<Rightarrow> sqlarg list \<Rightarrow> 'd world \<Rightarrow> (error + int) \<times> 'd world" where
  "db_QueryRowInt db query args w =
     (case QueryRowInt db query args (db_state w) of
        (res, d) \<Rightarrow> (res, \<lparr>db_state = d, issued = issued w @ [(query, args)]\<rparr>))"

definition db_Query ::
  "('d, 'r) Database \<Rightarrow> string \<Rightarrow> sqlarg list \<Rightarrow> 'd world
     \<Rightarrow> (error + 'r Rows) \<times> 'd world" where
  "db_Query db query args w =
     (case Query db query args (db_state w) of
        (res, d) \<Rightarrow> (res, \<lparr>db_state = d, issued = issued w @ [(query, args)]\<rparr>))"

text \<open>The loop \<open>for rows.Next() { ... rows.Scan(...) ... results = append(results, &t) }\<close>,
  which returns at the first scan error.\<close>

fun scan_rows :: "(error + 'r) list \<Rightarrow> 'r list \<Rightarrow> error + 'r list" where
  "scan_rows [] results = Inr results"
| "scan_rows (r # rs) results =
     (case r of Inl err \<Rightarrow> Inl err | Inr t \<Rightarrow> scan_rows rs (results @ [t]))"

text \<open>A line of a raw string literal, as the source indents it, and the literal's end.\<close>

definition sql_line :: "string \<Rightarrow> string" where
  "sql_line s = [CHR 0x0A, CHR 0x09, CHR 0x09] @ s"

definition sql_end :: string where
  "sql_end = [CHR 0x0A, CHR 0x09]"

section \<open>The locale-aware resource: SQL\<close>

text \<open>The statement of \<open>createInDB\<close>: the text and the arguments.\<close>

definition createInDB_statement :: "Translatable \<Rightarrow> string \<times> sqlarg list" where
  "createInDB_statement t =
     (sql_line ''INSERT INTO translations (id, user_id, translatable_id, translatable, locale, content, created_at)''
        @ sql_line ''VALUES ($1, $2, $3, $4, $5, $6, $7)'' @ sql_end,
      [ArgUUID (ID t), ArgUUIDPtr (UserID t), ArgUUID (TranslatableID t),
       ArgString (TranslatableType t), ArgString (Locale t), ArgString (Content t),
       ArgTime (CreatedAt t)])"

definition createInDB ::
  "('d, Translatable) Database \<Rightarrow> Translatable \<Rightarrow> 'd world \<Rightarrow> error option \<times> 'd world" where
  "createInDB db t w =
     (case db_Exec db (fst (createInDB_statement t)) (snd (createInDB_statement t)) w of
        (Inl err, w') \<Rightarrow> (Some err, w')
      | (Inr _, w') \<Rightarrow> (None, w'))"

definition getByIDFromDB_statement :: "uuid \<Rightarrow> string \<times> sqlarg list" where
  "getByIDFromDB_statement rowID =
     (sql_line ''SELECT id, user_id, translatable_id, translatable, locale, content, updated_at, created_at''
        @ sql_line ''FROM translations'' @ sql_line ''WHERE id = $1'' @ sql_end,
      [ArgUUID rowID])"

definition getByIDFromDB ::
  "('d, Translatable) Database \<Rightarrow> uuid \<Rightarrow> 'd world \<Rightarrow> (error + Translatable) \<times> 'd world" where
  "getByIDFromDB db rowID w =
     db_QueryRow db (fst (getByIDFromDB_statement rowID)) (snd (getByIDFromDB_statement rowID)) w"

text \<open>The variables \<open>query\<close>, \<open>countQuery\<close>, \<open>args\<close> and \<open>argCount\<close> of \<open>queryFromDB\<close>,
  and the body of each of its blocks \<open>if params.X != nil { ... }\<close>.\<close>

record builder =
  b_query :: string
  b_countQuery :: string
  b_args :: "sqlarg list"
  b_argCount :: int

definition add_filter :: "string \<Rightarrow> sqlarg \<Rightarrow> builder \<Rightarrow> builder" where
  "add_filter column arg b =
     (let clause = '' AND '' @ column @ '' = $'' @ Itoa (b_argCount b)
      in \<lparr>b_query = b_query b @ clause, b_countQuery = b_countQuery b @ clause,
          b_args = b_args b @ [arg], b_argCount = b_argCount b + 1\<rparr>)"

definition queryFromDB_filters :: "QueryParams \<Rightarrow> builder" where
  "queryFromDB_filters params =
     (let b0 = \<lparr>b_query =
                  sql_line ''SELECT id, user_id, translatable_id, translatable, locale, content, updated_at, created_at''
                  @ sql_line ''FROM translations'' @ sql_line ''WHERE 1=1'' @ sql_end,
                b_countQuery = ''SELECT COUNT(*) FROM translations WHERE 1=1'',
                b_args = [], b_argCount = 1\<rparr>;
          b1 = (case q_TranslatableID params of
                  Some v \<Rightarrow> add_filter ''translatable_id'' (ArgUUID v) b0 | None \<Rightarrow> b0);
          b2 = (case q_Translatable params of
                  Some v \<Rightarrow> add_filter ''translatable'' (ArgString v) b1 | None \<Rightarrow> b1);
          b3 = (case q_Locale params of
                  Some v \<Rightarrow> add_filter ''locale'' (ArgString v) b2 | None \<Rightarrow> b2);
          b4 = (case q_UserID params of
                  Some v \<Rightarrow> add_filter ''user_id'' (ArgUUID v) b3 | None \<Rightarrow> b3)
      in b4)"

text \<open>The text and the arguments of the page query, after \<open>// Add pagination\<close>.\<close>

definition queryFromDB_page :: "QueryParams \<Rightarrow> string \<times> sqlarg list" where
  "queryFromDB_page params =
     (let b = queryFromDB_filters params
      in (b_query b @ '' ORDER BY created_at DESC''
            @ '' LIMIT $'' @ Itoa (b_argCount b) @ '' OFFSET $'' @ Itoa (b_argCount b + 1),
          b_args b @ [ArgInt (Limit params), ArgInt (Offset params)]))"

definition queryFromDB ::
  "('d, Translatable) Database \<Rightarrow> QueryParams \<Rightarrow> 'd world
     \<Rightarrow> (Translatable list \<times> int \<times> error option) \<times> 'd world" where
  "queryFromDB db params w =
     (let b = queryFromDB_filters params in
      case db_QueryRowInt db (b_countQuery b) (b_args b) w of
        (Inl err, w1) \<Rightarrow> (([], 0, Some err), w1)
      | (Inr count, w1) \<Rightarrow>
     (case db_Query db (fst (queryFromDB_page params)) (snd (queryFromDB_page params)) w1 of
        (Inl err, w2) \<Rightarrow> (([], 0, Some err), w2)
      | (Inr rows, w2) \<Rightarrow>
     (case scan_rows (rows_Scan rows) [] of
        Inl err \<Rightarrow> (([], 0, Some err), w2)
      | Inr results \<Rightarrow> ((results, count, rows_Err rows), w2))))"

text \<open>The statement of \<open>updateInDB\<close> and of \<open>deleteFromDB\<close>: the text and the arguments,
  with the owner's clause when \<open>userID != nil\<close>.\<close>

definition updateInDB_statement ::
  "time \<Rightarrow> uuid \<Rightarrow> string \<Rightarrow> string \<Rightarrow> uuid option \<Rightarrow> string \<times> sqlarg list" where
  "updateInDB_statement now rowID content locale userID =
     (let query = sql_line ''UPDATE translations''
            @ sql_line ''SET content = $1, locale = $2, updated_at = $3''
            @ sql_line ''WHERE id = $4'' @ sql_end;
          args = [ArgString content, ArgString locale, ArgTime now, ArgUUID rowID]
      in case userID of
           Some u \<Rightarrow> (query @ '' AND user_id = $5'', args @ [ArgUUID u])
         | None \<Rightarrow> (query, args))"

definition updateInDB ::
  "('d, Translatable) Database \<Rightarrow> time \<Rightarrow> uuid \<Rightarrow> string \<Rightarrow> string \<Rightarrow> uuid option
     \<Rightarrow> 'd world \<Rightarrow> error option \<times> 'd world" where
  "updateInDB db now rowID content locale userID w =
     (case db_Exec db (fst (updateInDB_statement now rowID content locale userID))
             (snd (updateInDB_statement now rowID content locale userID)) w of
        (Inl err, w') \<Rightarrow> (Some err, w')
      | (Inr (Inl err), w') \<Rightarrow> (Some err, w')
      | (Inr (Inr rowsAffected), w') \<Rightarrow>
          if rowsAffected = 0 then
            (if userID \<noteq> None
             then (Some (New (''translation not found or you don'' @ [CHR 0x27]
                              @ ''t have permission to update it'')), w')
             else (Some (New ''translation not found''), w'))
          else (None, w'))"

definition deleteFromDB_statement :: "uuid \<Rightarrow> uuid option \<Rightarrow> string \<times> sqlarg list" where
  "deleteFromDB_statement rowID userID =
     (let query = ''DELETE FROM translations WHERE id = $1'';
          args = [ArgUUID rowID]
      in case userID of
           Some u \<Rightarrow> (query @ '' AND user_id = $2'', args @ [ArgUUID u])
         | None \<Rightarrow> (query, args))"

definition deleteFromDB ::
  "('d, Translatable) Database \<Rightarrow> uuid \<Rightarrow> uuid option \<Rightarrow> 'd world
     \<Rightarrow> error option \<times> 'd world" where
  "deleteFromDB db rowID userID w =
     (case db_Exec db (fst (deleteFromDB_statement rowID userID))
             (snd (deleteFromDB_statement rowID userID)) w of
        (Inl err, w') \<Rightarrow> (Some err, w')
      | (Inr (Inl err), w') \<Rightarrow> (Some err, w')
      | (Inr (Inr rowsAffected), w') \<Rightarrow>
          if rowsAffected = 0 then
            (if userID \<noteq> None
             then (Some (New (''translation not found or you don'' @ [CHR 0x27]
                              @ ''t have permission to delete it'')), w')
             else (Some (New ''translation not found''), w'))
          else (None, w'))"

section \<open>The locale-aware resource: handlers\<close>

text \<open>
  A value of the request's key-value store (\<open>c.Locals\<close>, \<open>r.Context().Value\<close>), of type
  \<open>interface{}\<close>: nothing, a \<open>uuid.UUID\<close>, a \<open>string\<close>, or a value of any other type.
\<close>

datatype any = NilValue | UUIDValue uuid | StringValue string | OtherValue

text \<open>What a handler reads of the \<open>fiber.Ctx\<close>; \<open>Params\<close> and \<open>QueryValue\<close> give the empty
  string for a key that is absent.  The outcome of \<open>c.BodyParser(&req)\<close> is an argument of
  the handlers that decode a body.\<close>

record Ctx =
  Params :: "string \<Rightarrow> string"
  QueryValue :: "string \<Rightarrow> string"
  Locals :: "string \<Rightarrow> any"

text \<open>A response: the status and the JSON body.\<close>

datatype 'r body =
    ErrorBody string
  | MessageBody string
  | EntityBody 'r
  | HydraCollection int "'r list"
  | DataPage "'r list" int int

type_synonym 'r response = "nat \<times> 'r body"

definition getUserIDFromFiberContext :: "uuid_Parse \<Rightarrow> Ctx \<Rightarrow> uuid option" where
  "getUserIDFromFiberContext parse c =
     (case Locals c ''user_id'' of
        NilValue \<Rightarrow> None
      | UUIDValue uid \<Rightarrow> Some uid
      | StringValue uidStr \<Rightarrow> (case parse uidStr of Inr uid \<Rightarrow> Some uid | Inl _ \<Rightarrow> None)
      | OtherValue \<Rightarrow> None)"

definition Resource_Create ::
  "uuid_Parse \<Rightarrow> uuid \<Rightarrow> time \<Rightarrow> ('d, Translatable) Database \<Rightarrow> Config \<Rightarrow> Ctx
     \<Rightarrow> error + CreateTranslatableRequest \<Rightarrow> 'd world
     \<Rightarrow> Translatable response \<times> 'd world" where
  "Resource_Create parse newID now db config c parsed w =
     (case parsed of
        Inl err \<Rightarrow> ((400, ErrorBody ''Invalid request body''), w)
      | Inr req \<Rightarrow>
     (case Create_Validate parse config req of
        (Some err, req') \<Rightarrow> ((400, ErrorBody (Error err)), w)
      | (None, req') \<Rightarrow>
     (let userID = getUserIDFromFiberContext parse c in
      case ToTranslatable parse newID now req' userID of
        Inl err \<Rightarrow> ((400, ErrorBody (Error err)), w)
      | Inr translatable \<Rightarrow>
     (case createInDB db translatable w of
        (Some err, w') \<Rightarrow> ((500, ErrorBody ''Failed to create translation''), w')
      | (None, w') \<Rightarrow> ((201, EntityBody translatable), w')))))"

definition Resource_GetByID ::
  "uuid_Parse \<Rightarrow> ('d, Translatable) Database \<Rightarrow> Ctx \<Rightarrow> 'd world
     \<Rightarrow> Translatable response \<times> 'd world" where
  "Resource_GetByID parse db c w =
     (case parse (Params c ''id'') of
        Inl err \<Rightarrow> ((400, ErrorBody ''Invalid ID''), w)
      | Inr rowID \<Rightarrow>
     (case getByIDFromDB db rowID w of
        (Inl err, w') \<Rightarrow>
          if errors_Is err pgx_ErrNoRows then ((404, ErrorBody ''Translation not found''), w')
          else ((500, ErrorBody ''Failed to get translation''), w')
      | (Inr translatable, w') \<Rightarrow> ((200, EntityBody translatable), w')))"

text \<open>The first part of \<open>Query\<close>: the parameters read from the query string, or the
  message of the 400 response it returns on the way.\<close>

definition Resource_Query_params :: "uuid_Parse \<Rightarrow> Config \<Rightarrow> Ctx \<Rightarrow> string + QueryParams" where
  "Resource_Query_params parse config c =
     (let params = \<lparr>q_TranslatableID = None, q_Translatable = None, q_Locale = None,
                     q_UserID = None, Limit = PaginationLimit config, Offset = 0\<rparr>;
          translatableIDStr = QueryValue c ''translatable_id''
      in
      case (if translatableIDStr \<noteq> [] then
              (case parse translatableIDStr of
                 Inr v \<Rightarrow> Inr (params\<lparr>q_TranslatableID := Some v\<rparr>)
               | Inl err \<Rightarrow> Inl ''Invalid translatable_id'')
            else Inr params) of
        Inl msg \<Rightarrow> Inl msg
      | Inr params1 \<Rightarrow>
     (let translatable = QueryValue c ''translatable'';
          params2 = (if translatable \<noteq> [] then params1\<lparr>q_Translatable := Some translatable\<rparr>
                     else params1);
          locale = QueryValue c ''locale'';
          params3 = (if locale \<noteq> [] then params2\<lparr>q_Locale := Some locale\<rparr> else params2);
          userIDStr = QueryValue c ''user_id''
      in
      case (if userIDStr \<noteq> [] then
              (case parse userIDStr of
                 Inr v \<Rightarrow> Inr (params3\<lparr>q_UserID := Some v\<rparr>)
               | Inl err \<Rightarrow> Inl ''Invalid user_id'')
            else Inr params3) of
        Inl msg \<Rightarrow> Inl msg
      | Inr params4 \<Rightarrow>
     (let limitStr = QueryValue c ''limit'';
          params5 = (if limitStr \<noteq> [] then
                       (case Atoi limitStr of
                          Some limit \<Rightarrow> params4\<lparr>Limit := limit\<rparr> | None \<Rightarrow> params4)
                     else params4);
          offsetStr = QueryValue c ''offset'';
          params6 = (if offsetStr \<noteq> [] then
                       (case Atoi offsetStr of
                          Some offset \<Rightarrow> params5\<lparr>Offset := offset\<rparr> | None \<Rightarrow> params5)
                     else params5)
      in Inr params6)))"

definition Resource_Query ::
  "uuid_Parse \<Rightarrow> ('d, Translatable) Database \<Rightarrow> Config \<Rightarrow> Ctx \<Rightarrow> 'd world
     \<Rightarrow> Translatable response \<times> 'd world" where
  "Resource_Query parse db config c w =
     (case Resource_Query_params parse config c of
        Inl msg \<Rightarrow> ((400, ErrorBody msg), w)
      | Inr params \<Rightarrow>
     (case QueryParams_Validate config params of
        (Some err, params') \<Rightarrow> ((400, ErrorBody (Error err)), w)
      | (None, params') \<Rightarrow>
     (case queryFromDB db params' w of
        ((results, count, Some err), w') \<Rightarrow> ((500, ErrorBody ''Failed to query translations''), w')
      | ((results, count, None), w') \<Rightarrow> ((200, HydraCollection count results), w'))))"


definition Resource_Delete ::
  "uuid_Parse \<Rightarrow> ('d, Translatable) Database \<Rightarrow> Ctx \<Rightarrow> 'd world
     \<Rightarrow> Translatable response \<times> 'd world" where
  "Resource_Delete parse db c w =
     (case parse (Params c ''id'') of
        Inl err \<Rightarrow> ((400, ErrorBody ''Invalid ID''), w)
      | Inr rowID \<Rightarrow>
     (let userID = getUserIDFromFiberContext parse c in
      case deleteFromDB db rowID userID w of
        (Some err, w1) \<Rightarrow>
          if Error err = ''translation not found'' \<or>
             Error err = ''translation not found or you don'' @ [CHR 0x27]
                           @ ''t have permission to delete it''
          then ((404, ErrorBody (Error err)), w1)
          else ((500, ErrorBody ''Failed to delete translation''), w1)
      | (None, w1) \<Rightarrow> ((200, MessageBody ''Translation deleted successfully''), w1)))"

section \<open>The repository without locales\<close>

text \<open>The interface \<open>Repository\<close>, over any state \<open>'w\<close>; the text of \<open>fmt.Sprintf("...$%d", n)\<close>
  is that of \<open>Itoa\<close>.\<close>

record 'w Repository =
  repo_Create :: "TblTranslatable \<Rightarrow> 'w \<Rightarrow> error option \<times> 'w"
  repo_GetByID :: "uuid \<Rightarrow> 'w \<Rightarrow> (error + TblTranslatable) \<times> 'w"
  repo_Query :: "TblQueryParams \<Rightarrow> 'w \<Rightarrow> (error + TblTranslatable list) \<times> 'w"
  repo_Update :: "uuid \<Rightarrow> string \<Rightarrow> uuid option \<Rightarrow> 'w \<Rightarrow> error option \<times> 'w"
  repo_Delete :: "uuid \<Rightarrow> uuid option \<Rightarrow> 'w \<Rightarrow> error option \<times> 'w"





record tbl_builder =
  tb_query :: string
  tb_args :: "sqlarg list"
  tb_argCount :: int

definition tbl_add_filter :: "string \<Rightarrow> sqlarg \<Rightarrow> tbl_builder \<Rightarrow> tbl_builder" where
  "tbl_add_filter column arg b =
     \<lparr>tb_query = tb_query b @ '' AND '' @ column @ '' = $'' @ Itoa (tb_argCount b),
      tb_args = tb_args b @ [arg], tb_argCount = tb_argCount b + 1\<rparr>"

definition repository_Query_filters :: "TblQueryParams \<Rightarrow> tbl_builder" where
  "repository_Query_filters params =
     (let b0 = \<lparr>tb_query =
                  sql_line ''SELECT id, user_id, translatable_id, translatable, content, updated_at, created_at''
                  @ sql_line ''FROM translatable'' @ sql_line ''WHERE 1=1'' @ sql_end,
                tb_args = [], tb_argCount = 1\<rparr>;
          b1 = (case tq_TranslatableID params of
                  Some v \<Rightarrow> tbl_add_filter ''translatable_id'' (ArgUUID v) b0 | None \<Rightarrow> b0);
          b2 = (case tq_Translatable params of
                  Some v \<Rightarrow> tbl_add_filter ''translatable'' (ArgString v) b1 | None \<Rightarrow> b1);
          b3 = (case tq_UserID params of
                  Some v \<Rightarrow> tbl_add_filter ''user_id'' (ArgUUID v) b2 | None \<Rightarrow> b2)
      in b3)"

definition repository_Query_statement :: "TblQueryParams \<Rightarrow> string \<times> sqlarg list" where
  "repository_Query_statement params =
     (let b = repository_Query_filters params
      in (tb_query b @ '' ORDER BY created_at DESC''
            @ '' LIMIT $'' @ Itoa (tb_argCount b) @ '' OFFSET $'' @ Itoa (tb_argCount b + 1),
          tb_args b @ [ArgInt (tq_Limit params), ArgInt (tq_Offset params)]))"

fun tbl_scan_rows :: "(error + 'r) list \<Rightarrow> 'r list \<Rightarrow> error + 'r list" where
  "tbl_scan_rows [] results = Inr results"
| "tbl_scan_rows (r # rs) results =
     (case r of
        Inl err \<Rightarrow> Inl (Wrap ''failed to scan translatable: '' err)
      | Inr t \<Rightarrow> tbl_scan_rows rs (results @ [t]))"

definition repository_Query ::
  "('d, TblTranslatable) Database \<Rightarrow> TblQueryParams \<Rightarrow> 'd world
     \<Rightarrow> (error + TblTranslatable list) \<times> 'd world" where
  "repository_Query db params w =
     (case db_Query db (fst (repository_Query_statement params))
             (snd (repository_Query_statement params)) w of
        (Inl err, w') \<Rightarrow> (Inl (Wrap ''failed to query translatable: '' err), w')
      | (Inr rows, w') \<Rightarrow>
     (case tbl_scan_rows (rows_Scan rows) [] of
        Inl err \<Rightarrow> (Inl err, w')
      | Inr results \<Rightarrow>
     (case rows_Err rows of
        Some err \<Rightarrow> (Inl (Wrap ''error iterating translatable rows: '' err), w')
      | None \<Rightarrow> (Inr results, w'))))"

definition repository_Update_statement ::
  "time \<Rightarrow> uuid \<Rightarrow> string \<Rightarrow> uuid option \<Rightarrow> string \<times> sqlarg list" where
  "repository_Update_statement now rowID content userID =
     (let query = sql_line ''UPDATE translatable''
            @ sql_line ''SET content = $1, updated_at = $2''
            @ sql_line ''WHERE id = $3'' @ sql_end;
          args = [ArgString content, ArgTime now, ArgUUID rowID]
      in case userID of
           Some u \<Rightarrow> (query @ '' AND user_id = $4'', args @ [ArgUUID u])
         | None \<Rightarrow> (query, args))"

definition repository_Update ::
  "('d, TblTranslatable) Database \<Rightarrow> time \<Rightarrow> uuid \<Rightarrow> string \<Rightarrow> uuid option \<Rightarrow> 'd world
     \<Rightarrow> error option \<times> 'd world" where
  "repository_Update db now rowID content userID w =
     (case db_Exec db (fst (repository_Update_statement now rowID content userID))
             (snd (repository_Update_statement now rowID content userID)) w of
        (Inl err, w') \<Rightarrow> (Some (Wrap ''failed to update translatable: '' err), w')
      | (Inr (Inl err), w') \<Rightarrow> (Some (Wrap ''failed to get rows affected: '' err), w')
      | (Inr (Inr rowsAffected), w') \<Rightarrow>
          if rowsAffected = 0 then
            (if userID \<noteq> None
             then (Some (New (''translatable not found or you don'' @ [CHR 0x27]
                              @ ''t have permission to update it'')), w')
             else (Some (New ''translatable not found''), w'))
          else (None, w'))"

definition repository_Delete_statement :: "uuid \<Rightarrow> uuid option \<Rightarrow> string \<times> sqlarg list" where
  "repository_Delete_statement rowID userID =
     (let query = ''DELETE FROM translatable WHERE id = $1'';
          args = [ArgUUID rowID]
      in case userID of
           Some u \<Rightarrow> (query @ '' AND user_id = $2'', args @ [ArgUUID u])
         | None \<Rightarrow> (query, args))"

definition repository_Delete ::
  "('d, TblTranslatable) Database \<Rightarrow> uuid \<Rightarrow> uuid option \<Rightarrow> 'd world
     \<Rightarrow> error option \<times> 'd world" where
  "repository_Delete db rowID userID w =
     (case db_Exec db (fst (repository_Delete_statement rowID userID))
             (snd (repository_Delete_statement rowID userID)) w of
        (Inl err, w') \<Rightarrow> (Some (Wrap ''failed to delete translatable: '' err), w')
      | (Inr (Inl err), w') \<Rightarrow> (Some (Wrap ''failed to get rows affected: '' err), w')
      | (Inr (Inr rowsAffected), w') \<Rightarrow>
          if rowsAffected = 0 then
            (if userID \<noteq> None
             then (Some (New (''translatable not found or you don'' @ [CHR 0x27]
                              @ ''t have permission to delete it'')), w')
             else (Some (New ''translatable not found''), w'))
          else (None, w'))"


section \<open>The handler without locales\<close>

text \<open>What a handler reads of the \<open>http.Request\<close>: \<open>r.URL.Query().Get\<close>, \<open>r.PathValue\<close>
  and \<open>r.Context().Value\<close>.  The outcome of decoding the JSON body is an argument.\<close>

record Request =
  URLQueryGet :: "string \<Rightarrow> string"
  PathValue :: "string \<Rightarrow> string"
  ContextValue :: "string \<Rightarrow> any"

definition getUserIDFromContext :: "uuid_Parse \<Rightarrow> Request \<Rightarrow> uuid option" where
  "getUserIDFromContext parse r =
     (case ContextValue r ''user_id'' of
        NilValue \<Rightarrow> None
      | UUIDValue uid \<Rightarrow> Some uid
      | StringValue uidStr \<Rightarrow> (case parse uidStr of Inr uid \<Rightarrow> Some uid | Inl _ \<Rightarrow> None)
      | OtherValue \<Rightarrow> None)"

definition Handler_Create ::
  "uuid_Parse \<Rightarrow> uuid \<Rightarrow> time \<Rightarrow> 'w Repository \<Rightarrow> TblConfig \<Rightarrow> Request
     \<Rightarrow> error + TblCreateTranslatableRequest \<Rightarrow> 'w \<Rightarrow> TblTranslatable response \<times> 'w" where
  "Handler_Create parse newID now repo config r decoded w =
     (case decoded of
        Inl err \<Rightarrow> ((400, ErrorBody ''Invalid request body''), w)
      | Inr req \<Rightarrow>
     (case Tbl_Create_Validate parse config req of
        (Some err, req') \<Rightarrow> ((400, ErrorBody (Error err)), w)
      | (None, req') \<Rightarrow>
     (let userID = getUserIDFromContext parse r in
      case Tbl_ToTranslatable parse newID now req' userID of
        Inl err \<Rightarrow> ((400, ErrorBody (Error err)), w)
      | Inr translatable \<Rightarrow>
     (case repo_Create repo translatable w of
        (Some err, w') \<Rightarrow> ((500, ErrorBody ''Failed to create translatable''), w')
      | (None, w') \<Rightarrow> ((201, EntityBody translatable), w')))))"

definition Handler_Query_params :: "uuid_Parse \<Rightarrow> Request \<Rightarrow> string + TblQueryParams" where
  "Handler_Query_params parse r =
     (let params = \<lparr>tq_TranslatableID = None, tq_Translatable = None, tq_UserID = None,
                     tq_Limit = 20, tq_Offset = 0\<rparr>;
          translatableIDStr = URLQueryGet r ''translatable_id''
      in
      case (if translatableIDStr \<noteq> [] then
              (case parse translatableIDStr of
                 Inr v \<Rightarrow> Inr (params\<lparr>tq_TranslatableID := Some v\<rparr>)
               | Inl err \<Rightarrow> Inl ''Invalid translatable_id'')
            else Inr params) of
        Inl msg \<Rightarrow> Inl msg
      | Inr params1 \<Rightarrow>
     (let translatable = URLQueryGet r ''translatable'';
          params2 = (if translatable \<noteq> [] then params1\<lparr>tq_Translatable := Some translatable\<rparr>
                     else params1);
          userIDStr = URLQueryGet r ''user_id''
      in
      case (if userIDStr \<noteq> [] then
              (case parse userIDStr of
                 Inr v \<Rightarrow> Inr (params2\<lparr>tq_UserID := Some v\<rparr>)
               | Inl err \<Rightarrow> Inl ''Invalid user_id'')
            else Inr params2) of
        Inl msg \<Rightarrow> Inl msg
      | Inr params3 \<Rightarrow>
     (let limitStr = URLQueryGet r ''limit'';
          params4 = (if limitStr \<noteq> [] then
                       (case Atoi limitStr of
                          Some limit \<Rightarrow> params3\<lparr>tq_Limit := limit\<rparr> | None \<Rightarrow> params3)
                     else params3);
          offsetStr = URLQueryGet r ''offset'';
          params5 = (if offsetStr \<noteq> [] then
                       (case Atoi offsetStr of
                          Some offset \<Rightarrow> params4\<lparr>tq_Offset := offset\<rparr> | None \<Rightarrow> params4)
                     else params4)
      in Inr params5)))"

definition Handler_Query ::
  "uuid_Parse \<Rightarrow> 'w Repository \<Rightarrow> Request \<Rightarrow> 'w \<Rightarrow> TblTranslatable response \<times> 'w" where
  "Handler_Query parse repo r w =
     (case Handler_Query_params parse r of
        Inl msg \<Rightarrow> ((400, ErrorBody msg), w)
      | Inr params \<Rightarrow>
     (case Tbl_QueryParams_Validate params of
        (Some err, params') \<Rightarrow> ((400, ErrorBody (Error err)), w)
      | (None, params') \<Rightarrow>
     (case repo_Query repo params' w of
        (Inl err, w') \<Rightarrow> ((500, ErrorBody ''Failed to query translatable''), w')
      | (Inr results, w') \<Rightarrow>
          ((200, DataPage results (tq_Limit params') (tq_Offset params')), w'))))"

text \<open>\<open>idStr := r.URL.Query().Get("id"); if idStr == "" { idStr = r.PathValue("id") }\<close>\<close>

definition request_idStr :: "Request \<Rightarrow> string" where
  "request_idStr r = (if URLQueryGet r ''id'' = [] then PathValue r ''id'' else URLQueryGet r ''id'')"

definition Handler_GetByID ::
  "uuid_Parse \<Rightarrow> 'w Repository \<Rightarrow> Request \<Rightarrow> 'w \<Rightarrow> TblTranslatable response \<times> 'w" where
  "Handler_GetByID parse repo r w =
     (case parse (request_idStr r) of
        Inl err \<Rightarrow> ((400, ErrorBody ''Invalid ID''), w)
      | Inr rowID \<Rightarrow>
     (case repo_GetByID repo rowID w of
        (Inl err, w') \<Rightarrow>
          if Error err = ''translatable not found'' then ((404, ErrorBody (Error err)), w')
          else ((500, ErrorBody ''Failed to get translatable''), w')
      | (Inr translatable, w') \<Rightarrow> ((200, EntityBody translatable), w')))"

definition Handler_Update ::
  "uuid_Parse \<Rightarrow> 'w Repository \<Rightarrow> TblConfig \<Rightarrow> Request
     \<Rightarrow> error + TblUpdateTranslatableRequest \<Rightarrow> 'w \<Rightarrow> TblTranslatable response \<times> 'w" where
  "Handler_Update parse repo config r decoded w =
     (case parse (request_idStr r) of
        Inl err \<Rightarrow> ((400, ErrorBody ''Invalid ID''), w)
      | Inr rowID \<Rightarrow>
     (case decoded of
        Inl err \<Rightarrow> ((400, ErrorBody ''Invalid request body''), w)
      | Inr req \<Rightarrow>
     (case Tbl_Update_Validate config req of
        (Some err, req') \<Rightarrow> ((400, ErrorBody (Error err)), w)
      | (None, req') \<Rightarrow>
     (let userID = getUserIDFromContext parse r in
      case repo_Update repo rowID (tu_Content req') userID w of
        (Some err, w1) \<Rightarrow>
          if Error err = ''translatable not found'' \<or>
             Error err = ''translatable not found or you don'' @ [CHR 0x27]
                           @ ''t have permission to update it''
          then ((404, ErrorBody (Error err)), w1)
          else ((500, ErrorBody ''Failed to update translatable''), w1)
      | (None, w1) \<Rightarrow>
     (case repo_GetByID repo rowID w1 of
        (Inl err, w2) \<Rightarrow> ((500, ErrorBody ''Failed to get updated translatable''), w2)
      | (Inr translatable, w2) \<Rightarrow> ((200, EntityBody translatable), w2))))))"

definition Handler_Delete ::
  "uuid_Parse \<Rightarrow> 'w Repository \<Rightarrow> Request \<Rightarrow> 'w \<Rightarrow> TblTranslatable response \<times> 'w" where
  "Handler_Delete parse repo r w =
     (case parse (request_idStr r) of
        Inl err \<Rightarrow> ((400, ErrorBody ''Invalid ID''), w)
      | Inr rowID \<Rightarrow>
     (let userID = getUserIDFromContext parse r in
      case repo_Delete repo rowID userID w of
        (Some err, w1) \<Rightarrow>
          if Error err = ''translatable not found'' \<or>
             Error err = ''translatable not found or you don'' @ [CHR 0x27]
                           @ ''t have permission to delete it''
          then ((404, ErrorBody (Error err)), w1)
          else ((500, ErrorBody ''Failed to delete translatable''), w1)
      | (None, w1) \<Rightarrow> ((200, MessageBody ''Translatable deleted successfully''), w1)))"

section \<open>A mock database\<close>



text \<open>A stand-in for \<open>uuid.Parse\<close> in the examples: it accepts one string only.\<close>

definition parse_only :: "string \<Rightarrow> uuid \<Rightarrow> uuid_Parse" where
  "parse_only s u = (\<lambda>x. if x = s then Inr u else Inl (New ''invalid UUID''))"


section \<open>The specification's readings\<close>

text \<open>
  The specification gives the checks of a request as a list in a fixed order, of which
  the first that fails decides the error.  A check is a pair of what fails it and its
  message.
\<close>

definition first_failure :: "(bool \<times> string) list \<Rightarrow> error option" where
  "first_failure checks = map_option (\<lambda>c. New (snd c)) (find fst checks)"

text \<open>
  The specification gives the query as an ordered list of (column, value) pairs, one for
  each filter that is present, folded into text with placeholders numbered from 1, the
  arguments in the same order.
\<close>

definition present_filters :: "QueryParams \<Rightarrow> (string \<times> sqlarg) list" where
  "present_filters p =
     (case q_TranslatableID p of Some v \<Rightarrow> [(''translatable_id'', ArgUUID v)] | None \<Rightarrow> [])
     @ (case q_Translatable p of Some v \<Rightarrow> [(''translatable'', ArgString v)] | None \<Rightarrow> [])
     @ (case q_Locale p of Some v \<Rightarrow> [(''locale'', ArgString v)] | None \<Rightarrow> [])
     @ (case q_UserID p of Some v \<Rightarrow> [(''user_id'', ArgUUID v)] | None \<Rightarrow> [])"

definition tbl_present_filters :: "TblQueryParams \<Rightarrow> (string \<times> sqlarg) list" where
  "tbl_present_filters p =
     (case tq_TranslatableID p of Some v \<Rightarrow> [(''translatable_id'', ArgUUID v)] | None \<Rightarrow> [])
     @ (case tq_Translatable p of Some v \<Rightarrow> [(''translatable'', ArgString v)] | None \<Rightarrow> [])
     @ (case tq_UserID p of Some v \<Rightarrow> [(''user_id'', ArgUUID v)] | None \<Rightarrow> [])"

fun where_clauses :: "nat \<Rightarrow> (string \<times> sqlarg) list \<Rightarrow> string" where
  "where_clauses n [] = []"
| "where_clauses n (f # fs) =
     '' AND '' @ fst f @ '' = $'' @ Itoa (int n) @ where_clauses (Suc n) fs"

section \<open>The tables\<close>

text \<open>
  The table \<open>translations\<close> of the migration \<open>create_translations_table\<close>, as a database
  whose state is the list of its rows: \<open>id\<close> is the primary key and
  \<open>(translatable_id, translatable, locale)\<close> is unique; a statement that would break either
  fails and changes nothing.  The foreign key to \<open>users\<close> is left out.  The table
  understands the statements of the resource, by their text and the shape of their
  arguments, and answers any other statement with an error.
\<close>

definition arg_at :: "sqlarg list \<Rightarrow> nat \<Rightarrow> sqlarg" where
  "arg_at args k = (if k < length args then args ! k else ArgInt 0)"

fun uuid_of :: "sqlarg \<Rightarrow> uuid" where
  "uuid_of (ArgUUID u) = u"
| "uuid_of a = UUID []"

fun uuid_ptr_of :: "sqlarg \<Rightarrow> uuid option" where
  "uuid_ptr_of (ArgUUIDPtr u) = u"
| "uuid_ptr_of a = None"

fun string_of :: "sqlarg \<Rightarrow> string" where
  "string_of (ArgString x) = x"
| "string_of a = []"

fun int_of :: "sqlarg \<Rightarrow> int" where
  "int_of (ArgInt i) = i"
| "int_of a = 0"

fun time_of :: "sqlarg \<Rightarrow> time" where
  "time_of (ArgTime t) = t"
| "time_of a = 0"

definition table_constraints :: "Translatable list \<Rightarrow> bool" where
  "table_constraints rows =
     (distinct (map ID rows)
      \<and> distinct (map (\<lambda>t. (TranslatableID t, TranslatableType t, Locale t)) rows))"

definition table_insert ::
  "Translatable \<Rightarrow> Translatable list \<Rightarrow> (error + (error + int)) \<times> Translatable list" where
  "table_insert t rows =
     (if table_constraints (rows @ [t]) then (Inr (Inr 1), rows @ [t])
      else (Inl (New ''duplicate key value violates unique constraint''), rows))"

definition table_update ::
  "(Translatable \<Rightarrow> bool) \<Rightarrow> string \<Rightarrow> string \<Rightarrow> time \<Rightarrow> Translatable list
     \<Rightarrow> (error + (error + int)) \<times> Translatable list" where
  "table_update hit content locale now rows =
     (let rows' = map (\<lambda>t. if hit t
                            then t\<lparr>Locale := locale, Content := content, UpdatedAt := Some now\<rparr>
                            else t) rows
      in if table_constraints rows' then (Inr (Inr (int (length (filter hit rows)))), rows')
         else (Inl (New ''duplicate key value violates unique constraint''), rows))"

definition table_delete ::
  "(Translatable \<Rightarrow> bool) \<Rightarrow> Translatable list
     \<Rightarrow> (error + (error + int)) \<times> Translatable list" where
  "table_delete hit rows =
     (Inr (Inr (int (length (filter hit rows)))), filter (\<lambda>t. \<not> hit t) rows)"

definition table_Exec ::
  "string \<Rightarrow> sqlarg list \<Rightarrow> Translatable list
     \<Rightarrow> (error + (error + int)) \<times> Translatable list" where
  "table_Exec query args rows =
     (if query =
           sql_line ''INSERT INTO translations (id, user_id, translatable_id, translatable, locale, content, created_at)''
           @ sql_line ''VALUES ($1, $2, $3, $4, $5, $6, $7)'' @ sql_end
         \<and> args = [ArgUUID (uuid_of (arg_at args 0)), ArgUUIDPtr (uuid_ptr_of (arg_at args 1)),
                   ArgUUID (uuid_of (arg_at args 2)), ArgString (string_of (arg_at args 3)),
                   ArgString (string_of (arg_at args 4)), ArgString (string_of (arg_at args 5)),
                   ArgTime (time_of (arg_at args 6))]
      then table_insert
             \<lparr>ID = uuid_of (arg_at args 0), UserID = uuid_ptr_of (arg_at args 1),
              TranslatableID = uuid_of (arg_at args 2),
              TranslatableType = string_of (arg_at args 3), Locale = string_of (arg_at args 4),
              Content = string_of (arg_at args 5), UpdatedAt = None,
              CreatedAt = time_of (arg_at args 6)\<rparr> rows
      else if query =
           sql_line ''UPDATE translations''
           @ sql_line ''SET content = $1, locale = $2, updated_at = $3''
           @ sql_line ''WHERE id = $4'' @ sql_end
         \<and> args = [ArgString (string_of (arg_at args 0)), ArgString (string_of (arg_at args 1)),
                   ArgTime (time_of (arg_at args 2)), ArgUUID (uuid_of (arg_at args 3))]
      then table_update (\<lambda>t. ID t = uuid_of (arg_at args 3))
             (string_of (arg_at args 0)) (string_of (arg_at args 1)) (time_of (arg_at args 2)) rows
      else if query =
           sql_line ''UPDATE translations''
           @ sql_line ''SET content = $1, locale = $2, updated_at = $3''
           @ sql_line ''WHERE id = $4'' @ sql_end @ '' AND user_id = $5''
         \<and> args = [ArgString (string_of (arg_at args 0)), ArgString (string_of (arg_at args 1)),
                   ArgTime (time_of (arg_at args 2)), ArgUUID (uuid_of (arg_at args 3)),
                   ArgUUID (uuid_of (arg_at args 4))]
      then table_update
             (\<lambda>t. ID t = uuid_of (arg_at args 3) \<and> UserID t = Some (uuid_of (arg_at args 4)))
             (string_of (arg_at args 0)) (string_of (arg_at args 1)) (time_of (arg_at args 2)) rows
      else if query = ''DELETE FROM translations WHERE id = $1''
         \<and> args = [ArgUUID (uuid_of (arg_at args 0))]
      then table_delete (\<lambda>t. ID t = uuid_of (arg_at args 0)) rows
      else if query = ''DELETE FROM translations WHERE id = $1'' @ '' AND user_id = $2''
         \<and> args = [ArgUUID (uuid_of (arg_at args 0)), ArgUUID (uuid_of (arg_at args 1))]
      then table_delete
             (\<lambda>t. ID t = uuid_of (arg_at args 0) \<and> UserID t = Some (uuid_of (arg_at args 1))) rows
      else (Inl (New ''syntax error''), rows))"

definition table_QueryRow ::
  "string \<Rightarrow> sqlarg list \<Rightarrow> Translatable list \<Rightarrow> (error + Translatable) \<times> Translatable list" where
  "table_QueryRow query args rows =
     (if query =
           sql_line ''SELECT id, user_id, translatable_id, translatable, locale, content, updated_at, created_at''
           @ sql_line ''FROM translations'' @ sql_line ''WHERE id = $1'' @ sql_end
         \<and> args = [ArgUUID (uuid_of (arg_at args 0))]
      then (case find (\<lambda>t. ID t = uuid_of (arg_at args 0)) rows of
              Some t \<Rightarrow> (Inr t, rows)
            | None \<Rightarrow> (Inl pgx_ErrNoRows, rows))
      else (Inl (New ''syntax error''), rows))"

text \<open>
  A list query is understood by its clauses: the columns of some of the filters, in the
  order of the list of all of them, each paired with the argument at its place.  A row
  passes when it has the value of every filter.
\<close>

definition list_candidates ::
  "string list \<Rightarrow> sqlarg list \<Rightarrow> nat \<Rightarrow> (string \<times> sqlarg) list list" where
  "list_candidates columns args k =
     map (\<lambda>cols. zip cols args)
       (filter (\<lambda>cols. length cols + k = length args) (subseqs columns))"

definition page_tail :: "nat \<Rightarrow> string" where
  "page_tail n =
     '' ORDER BY created_at DESC'' @ '' LIMIT $'' @ Itoa (int n + 1)
     @ '' OFFSET $'' @ Itoa (int n + 2)"

definition row_passes :: "string \<times> sqlarg \<Rightarrow> Translatable \<Rightarrow> bool" where
  "row_passes f t =
     (if fst f = ''translatable_id'' then snd f = ArgUUID (TranslatableID t)
      else if fst f = ''translatable'' then snd f = ArgString (TranslatableType t)
      else if fst f = ''locale'' then snd f = ArgString (Locale t)
      else if fst f = ''user_id''
      then snd f = ArgUUID (uuid_of (snd f)) \<and> UserID t = Some (uuid_of (snd f))
      else False)"

definition table_QueryRowInt ::
  "string \<Rightarrow> sqlarg list \<Rightarrow> Translatable list \<Rightarrow> (error + int) \<times> Translatable list" where
  "table_QueryRowInt query args rows =
     (case find (\<lambda>fs. query = ''SELECT COUNT(*) FROM translations WHERE 1=1''
                                @ where_clauses 1 fs)
             (list_candidates [''translatable_id'', ''translatable'', ''locale'', ''user_id'']
                args 0) of
        Some fs \<Rightarrow> (Inr (int (length (filter (\<lambda>t. list_all (\<lambda>f. row_passes f t) fs) rows))), rows)
      | None \<Rightarrow> (Inl (New ''syntax error''), rows))"

definition table_Query ::
  "string \<Rightarrow> sqlarg list \<Rightarrow> Translatable list
     \<Rightarrow> (error + Translatable Rows) \<times> Translatable list" where
  "table_Query query args rows =
     (case find (\<lambda>fs. query =
                       sql_line ''SELECT id, user_id, translatable_id, translatable, locale, content, updated_at, created_at''
                       @ sql_line ''FROM translations'' @ sql_line ''WHERE 1=1'' @ sql_end
                       @ where_clauses 1 fs @ page_tail (length fs)
                     \<and> args = map snd fs
                          @ [ArgInt (int_of (arg_at args (length fs))),
                             ArgInt (int_of (arg_at args (length fs + 1)))])
             (list_candidates [''translatable_id'', ''translatable'', ''locale'', ''user_id'']
                args 2) of
        Some fs \<Rightarrow>
          if int_of (arg_at args (length fs)) < 0 \<or> int_of (arg_at args (length fs + 1)) < 0
          then (Inl (New ''LIMIT and OFFSET must not be negative''), rows)
          else (Inr \<lparr>rows_Scan =
                       map Inr
                         (take (nat (int_of (arg_at args (length fs))))
                            (drop (nat (int_of (arg_at args (length fs + 1))))
                               (rev (sort_key CreatedAt
                                       (filter (\<lambda>t. list_all (\<lambda>f. row_passes f t) fs) rows))))),
                     rows_Err = None\<rparr>, rows)
      | None \<Rightarrow> (Inl (New ''syntax error''), rows))"

definition table_db :: "(Translatable list, Translatable) Database" where
  "table_db =
     \<lparr>Exec = table_Exec, QueryRow = table_QueryRow, QueryRowInt = table_QueryRowInt,
      Query = table_Query\<rparr>"

text \<open>
  The table \<open>translatable\<close> of the repository without locales, in the same way: its
  schema (\<open>001_create_translatable.sql\<close>) has the primary key \<open>id\<close> and no other
  constraint.
\<close>

definition tbl_table_update ::
  "(TblTranslatable \<Rightarrow> bool) \<Rightarrow> string \<Rightarrow> time \<Rightarrow> TblTranslatable list
     \<Rightarrow> (error + (error + int)) \<times> TblTranslatable list" where
  "tbl_table_update hit content now rows =
     (Inr (Inr (int (length (filter hit rows)))),
      map (\<lambda>t. if hit t then t\<lparr>tbl_Content := content, tbl_UpdatedAt := Some now\<rparr> else t) rows)"

definition tbl_table_delete ::
  "(TblTranslatable \<Rightarrow> bool) \<Rightarrow> TblTranslatable list
     \<Rightarrow> (error + (error + int)) \<times> TblTranslatable list" where
  "tbl_table_delete hit rows =
     (Inr (Inr (int (length (filter hit rows)))), filter (\<lambda>t. \<not> hit t) rows)"

definition tbl_table_Exec ::
  "string \<Rightarrow> sqlarg list \<Rightarrow> TblTranslatable list
     \<Rightarrow> (error + (error + int)) \<times> TblTranslatable list" where
  "tbl_table_Exec query args rows =
     (if query =
           sql_line ''INSERT INTO translatable (id, user_id, translatable_id, translatable, content, created_at)''
           @ sql_line ''VALUES ($1, $2, $3, $4, $5, $6)'' @ sql_end
         \<and> args = [ArgUUID (uuid_of (arg_at args 0)), ArgUUIDPtr (uuid_ptr_of (arg_at args 1)),
                   ArgUUID (uuid_of (arg_at args 2)), ArgString (string_of (arg_at args 3)),
                   ArgString (string_of (arg_at args 4)), ArgTime (time_of (arg_at args 5))]
      then (if uuid_of (arg_at args 0) \<in> set (map tbl_ID rows)
            then (Inl (New ''duplicate key value violates unique constraint''), rows)
            else (Inr (Inr 1),
                  rows @ [\<lparr>tbl_ID = uuid_of (arg_at args 0), tbl_UserID = uuid_ptr_of (arg_at args 1),
                           tbl_TranslatableID = uuid_of (arg_at args 2),
                           tbl_TranslatableType = string_of (arg_at args 3),
                           tbl_Content = string_of (arg_at args 4), tbl_UpdatedAt = None,
                           tbl_CreatedAt = time_of (arg_at args 5)\<rparr>]))
      else if query =
           sql_line ''UPDATE translatable'' @ sql_line ''SET content = $1, updated_at = $2''
           @ sql_line ''WHERE id = $3'' @ sql_end
         \<and> args = [ArgString (string_of (arg_at args 0)), ArgTime (time_of (arg_at args 1)),
                   ArgUUID (uuid_of (arg_at args 2))]
      then tbl_table_update (\<lambda>t. tbl_ID t = uuid_of (arg_at args 2))
             (string_of (arg_at args 0)) (time_of (arg_at args 1)) rows
      else if query =
           sql_line ''UPDATE translatable'' @ sql_line ''SET content = $1, updated_at = $2''
           @ sql_line ''WHERE id = $3'' @ sql_end @ '' AND user_id = $4''
         \<and> args = [ArgString (string_of (arg_at args 0)), ArgTime (time_of (arg_at args 1)),
                   ArgUUID (uuid_of (arg_at args 2)), ArgUUID (uuid_of (arg_at args 3))]
      then tbl_table_update
             (\<lambda>t. tbl_ID t = uuid_of (arg_at args 2) \<and> tbl_UserID t = Some (uuid_of (arg_at args 3)))
             (string_of (arg_at args 0)) (time_of (arg_at args 1)) rows
      else if query = ''DELETE FROM translatable WHERE id = $1''
         \<and> args = [ArgUUID (uuid_of (arg_at args 0))]
      then tbl_table_delete (\<lambda>t. tbl_ID t = uuid_of (arg_at args 0)) rows
      else if query = ''DELETE FROM translatable WHERE id = $1'' @ '' AND user_id = $2''
         \<and> args = [ArgUUID (uuid_of (arg_at args 0)), ArgUUID (uuid_of (arg_at args 1))]
      then tbl_table_delete
             (\<lambda>t. tbl_ID t = uuid_of (arg_at args 0) \<and> tbl_UserID t = Some (uuid_of (arg_at args 1)))
             rows
      else (Inl (New ''syntax error''), rows))"

definition tbl_table_QueryRow ::
  "string \<Rightarrow> sqlarg list \<Rightarrow> TblTranslatable list
     \<Rightarrow> (error + TblTranslatable) \<times> TblTranslatable list" where
  "tbl_table_QueryRow query args rows =
     (if query =
           sql_line ''SELECT id, user_id, translatable_id, translatable, content, updated_at, created_at''
           @ sql_line ''FROM translatable'' @ sql_line ''WHERE id = $1'' @ sql_end
         \<and> args = [ArgUUID (uuid_of (arg_at args 0))]
      then (case find (\<lambda>t. tbl_ID t = uuid_of (arg_at args 0)) rows of
              Some t \<Rightarrow> (Inr t, rows)
            | None \<Rightarrow> (Inl sql_ErrNoRows, rows))
      else (Inl (New ''syntax error''), rows))"

definition tbl_row_passes :: "string \<times> sqlarg \<Rightarrow> TblTranslatable \<Rightarrow> bool" where
  "tbl_row_passes f t =
     (if fst f = ''translatable_id'' then snd f = ArgUUID (tbl_TranslatableID t)
      else if fst f = ''translatable'' then snd f = ArgString (tbl_TranslatableType t)
      else if fst f = ''user_id''
      then snd f = ArgUUID (uuid_of (snd f)) \<and> tbl_UserID t = Some (uuid_of (snd f))
      else False)"

definition tbl_table_Query ::
  "string \<Rightarrow> sqlarg list \<Rightarrow> TblTranslatable list
     \<Rightarrow> (error + TblTranslatable Rows) \<times> TblTranslatable list" where
  "tbl_table_Query query args rows =
     (case find (\<lambda>fs. query =
                       sql_line ''SELECT id, user_id, translatable_id, translatable, content, updated_at, created_at''
                       @ sql_line ''FROM translatable'' @ sql_line ''WHERE 1=1'' @ sql_end
                       @ where_clauses 1 fs @ page_tail (length fs)
                     \<and> args = map snd fs
                          @ [ArgInt (int_of (arg_at args (length fs))),
                             ArgInt (int_of (arg_at args (length fs + 1)))])
             (list_candidates [''translatable_id'', ''translatable'', ''user_id''] args 2) of
        Some fs \<Rightarrow>
          if int_of (arg_at args (length fs)) < 0 \<or> int_of (arg_at args (length fs + 1)) < 0
          then (Inl (New ''LIMIT and OFFSET must not be negative''), rows)
          else (Inr \<lparr>rows_Scan =
                       map Inr
                         (take (nat (int_of (arg_at args (length fs))))
                            (drop (nat (int_of (arg_at args (length fs + 1))))
                               (rev (sort_key tbl_CreatedAt
                                       (filter (\<lambda>t. list_all (\<lambda>f. tbl_row_passes f t) fs) rows))))),
                     rows_Err = None\<rparr>, rows)
      | None \<Rightarrow> (Inl (New ''syntax error''), rows))"

definition tbl_table_db :: "(TblTranslatable list, TblTranslatable) Database" where
  "tbl_table_db =
     \<lparr>Exec = tbl_table_Exec, QueryRow = tbl_table_QueryRow,
      QueryRowInt = (\<lambda>query args rows. (Inl (New ''syntax error''), rows)),
      Query = tbl_table_Query\<rparr>"

text \<open>A content without the markup bytes \<open><\<close>, \<open>>\<close>, \<open>"\<close> and \<open>'\<close>.\<close>

definition no_markup :: "string \<Rightarrow> bool" where
  "no_markup s = (set s \<inter> {CHR ''<'', CHR ''>'', CHR 0x22, CHR 0x27} = {})"

text \<open>A value of the request's store that gives no caller: neither a \<open>uuid.UUID\<close> nor a
  string that parses as one.\<close>

definition not_a_user_id :: "uuid_Parse \<Rightarrow> any \<Rightarrow> bool" where
  "not_a_user_id parse v =
     (case v of
        NilValue \<Rightarrow> True
      | UUIDValue u \<Rightarrow> False
      | StringValue s \<Rightarrow> isl (parse s)
      | OtherValue \<Rightarrow> True)"

chapter \<open>Properties\<close>

section \<open>Configuration: the loops\<close>



lemma range_has_iff: "range_has xs s = (s \<in> set xs)"
  by (induction xs) auto

lemma allowedTypes_loop_None:
  "(allowedTypes_loop seen xs = None) = ([] \<notin> set xs \<and> distinct xs \<and> (\<forall>x \<in> set xs. \<not> seen x))"
  by (induction xs arbitrary: seen) auto

lemma supportedLocales_loop_None:
  "(supportedLocales_loop seen xs = None) = ([] \<notin> set xs \<and> distinct xs \<and> (\<forall>x \<in> set xs. \<not> seen x))"
  by (induction xs arbitrary: seen) auto

lemma allowedTables_loop_None:
  "(allowedTables_loop seen xs = None) = ([] \<notin> set xs \<and> distinct xs \<and> (\<forall>x \<in> set xs. \<not> seen x))"
  by (induction xs arbitrary: seen) auto

lemma defaultLocale_loop_None: "(defaultLocale_loop d xs = None) = (d \<in> set xs)"
  by (induction xs) auto

lemma validateAllowedTypes_iff:
  "(validateAllowedTypes c \<noteq> None) =
     (AllowedTypes c = [] \<or> [] \<in> set (AllowedTypes c) \<or> \<not> distinct (AllowedTypes c))"
  using allowedTypes_loop_None [of "\<lambda>_. False" "AllowedTypes c"]
  by (auto simp: validateAllowedTypes_def)

lemma validateSupportedLocales_iff:
  "(validateSupportedLocales c \<noteq> None) =
     (SupportedLocales c = [] \<or> [] \<in> set (SupportedLocales c) \<or> \<not> distinct (SupportedLocales c))"
  using supportedLocales_loop_None [of "\<lambda>_. False" "SupportedLocales c"]
  by (auto simp: validateSupportedLocales_def)

lemma validateDefaultLocale_iff:
  "(validateDefaultLocale c \<noteq> None) =
     (DefaultLocale c = [] \<or> DefaultLocale c \<notin> set (SupportedLocales c))"
  using defaultLocale_loop_None [of "DefaultLocale c" "SupportedLocales c"]
  by (auto simp: validateDefaultLocale_def)


section \<open>Configuration: \<open>Validate\<close>\<close>


lemma applyDefaults_eq:
  "applyDefaults c =
     c\<lparr>PaginationLimit := (if PaginationLimit c \<le> 0 then 20 else PaginationLimit c),
       MaxPaginationLimit := (if MaxPaginationLimit c \<le> 0 then 100 else MaxPaginationLimit c),
       MaxContentLength := (if MaxContentLength c \<le> 0 then 10240 else MaxContentLength c)\<rparr>"
  by (simp add: applyDefaults_def Let_def)

lemma Config_Validate_fst:
  "fst (Config_Validate c) =
     (if validateAllowedTypes c \<noteq> None then validateAllowedTypes c
      else if validateSupportedLocales c \<noteq> None then validateSupportedLocales c
      else if validateDefaultLocale c \<noteq> None then validateDefaultLocale c
      else if 1048576 < MaxContentLength c
      then Some (New ''max_content_length must be between 1 and 1048576 bytes'')
      else None)"
proof (cases "validateAllowedTypes c")
  case (Some e) then show ?thesis by (simp add: Config_Validate_def)
next
  case a: None
  show ?thesis
  proof (cases "validateSupportedLocales c")
    case (Some e) with a show ?thesis by (simp add: Config_Validate_def)
  next
    case b: None
    show ?thesis
    proof (cases "validateDefaultLocale c")
      case (Some e) with a b show ?thesis by (simp add: Config_Validate_def)
    next
      case d: None
      with a b show ?thesis by (simp add: Config_Validate_def applyDefaults_eq Let_def)
    qed
  qed
qed

lemma Config_Validate_snd:
  "fst (Config_Validate c) = None \<Longrightarrow> snd (Config_Validate c) = applyDefaults c"
  by (simp add: Config_Validate_def Let_def split: option.splits if_splits)

lemma Config_Validate_fails_iff:
  "(fst (Config_Validate c) \<noteq> None) =
     (AllowedTypes c = [] \<or> [] \<in> set (AllowedTypes c) \<or> \<not> distinct (AllowedTypes c)
      \<or> SupportedLocales c = [] \<or> [] \<in> set (SupportedLocales c) \<or> \<not> distinct (SupportedLocales c)
      \<or> DefaultLocale c = [] \<or> DefaultLocale c \<notin> set (SupportedLocales c)
      \<or> MaxContentLength c > 1048576)"
proof -
  have "(fst (Config_Validate c) \<noteq> None) =
          (validateAllowedTypes c \<noteq> None \<or> validateSupportedLocales c \<noteq> None
           \<or> validateDefaultLocale c \<noteq> None \<or> 1048576 < MaxContentLength c)"
    unfolding Config_Validate_fst by simp
  then show ?thesis
    by (simp only: validateAllowedTypes_iff validateSupportedLocales_iff
          validateDefaultLocale_iff disj_assoc)
qed

lemma TblConfig_Validate_fst:
  "fst (TblConfig_Validate c) =
     (if AllowedTables c = [] then Some (New ''allowed_tables cannot be empty'')
      else if allowedTables_loop (\<lambda>_. False) (AllowedTables c) \<noteq> None
      then allowedTables_loop (\<lambda>_. False) (AllowedTables c)
      else if TblMaxContentLength c < 0 \<or> 1048576 < TblMaxContentLength c
      then Some (New ''max_content_length must be between 1 and 1048576 bytes'')
      else None)"
  by (cases "allowedTables_loop (\<lambda>_. False) (AllowedTables c)")
     (simp_all add: TblConfig_Validate_def Let_def)

lemma TblConfig_Validate_snd:
  "fst (TblConfig_Validate c) = None \<Longrightarrow>
   snd (TblConfig_Validate c) =
     c\<lparr>TblMaxContentLength := (if TblMaxContentLength c = 0 then 10240 else TblMaxContentLength c)\<rparr>"
  by (cases "allowedTables_loop (\<lambda>_. False) (AllowedTables c)")
     (simp_all add: TblConfig_Validate_def Let_def split: if_splits)

lemma TblConfig_Validate_fails_iff:
  "(fst (TblConfig_Validate c) \<noteq> None) =
     (AllowedTables c = [] \<or> [] \<in> set (AllowedTables c) \<or> \<not> distinct (AllowedTables c)
      \<or> TblMaxContentLength c < 0 \<or> TblMaxContentLength c > 1048576)"
  using allowedTables_loop_None [of "\<lambda>_. False" "AllowedTables c"]
  unfolding TblConfig_Validate_fst by auto


section \<open>Claims about the configuration\<close>

text \<open>
  Claim C3.  \<open>Config.Validate()\<close> rejects the allowed types exactly when the list is
  empty, holds an empty string or holds a duplicate, and the supported locales likewise.
  As a whole it fails exactly when one of the two lists is rejected, the default locale is
  empty or not among the supported locales, or the maximal content length, after the
  defaults 20, 100 and 10240 have replaced what is unset, lies outside 1 to 1048576.
  When it succeeds, the configuration is the old one but for the three numeric fields that
  were defaulted.  The configuration without locales behaves the same way, over
  \<open>AllowedTables\<close> and its only numeric field, which is defaulted when it is 0.
\<close>

theorem Config_Validate_contract:
  "((validateAllowedTypes c \<noteq> None) =
      (AllowedTypes c = [] \<or> [] \<in> set (AllowedTypes c) \<or> \<not> distinct (AllowedTypes c)))
   \<and> ((validateSupportedLocales c \<noteq> None) =
      (SupportedLocales c = [] \<or> [] \<in> set (SupportedLocales c)
       \<or> \<not> distinct (SupportedLocales c)))
   \<and> ((fst (Config_Validate c) \<noteq> None) =
      (validateAllowedTypes c \<noteq> None \<or> validateSupportedLocales c \<noteq> None
       \<or> DefaultLocale c = [] \<or> DefaultLocale c \<notin> set (SupportedLocales c)
       \<or> (let m = (if MaxContentLength c \<le> 0 then 10240 else MaxContentLength c)
           in m < 1 \<or> 1048576 < m)))
   \<and> (fst (Config_Validate c) = None \<longrightarrow>
        snd (Config_Validate c) =
          c\<lparr>PaginationLimit := (if PaginationLimit c \<le> 0 then 20 else PaginationLimit c),
            MaxPaginationLimit :=
              (if MaxPaginationLimit c \<le> 0 then 100 else MaxPaginationLimit c),
            MaxContentLength :=
              (if MaxContentLength c \<le> 0 then 10240 else MaxContentLength c)\<rparr>)
   \<and> ((fst (TblConfig_Validate tc) \<noteq> None) =
      (AllowedTables tc = [] \<or> [] \<in> set (AllowedTables tc) \<or> \<not> distinct (AllowedTables tc)
       \<or> (let m = (if TblMaxContentLength tc = 0 then 10240 else TblMaxContentLength tc)
           in m < 1 \<or> 1048576 < m)))
   \<and> (fst (TblConfig_Validate tc) = None \<longrightarrow>
        snd (TblConfig_Validate tc) =
          tc\<lparr>TblMaxContentLength :=
               (if TblMaxContentLength tc = 0 then 10240 else TblMaxContentLength tc)\<rparr>)"
proof (intro conjI impI)
  show "(fst (Config_Validate c) \<noteq> None) =
      (validateAllowedTypes c \<noteq> None \<or> validateSupportedLocales c \<noteq> None
       \<or> DefaultLocale c = [] \<or> DefaultLocale c \<notin> set (SupportedLocales c)
       \<or> (let m = (if MaxContentLength c \<le> 0 then 10240 else MaxContentLength c)
           in m < 1 \<or> 1048576 < m))"
    unfolding Config_Validate_fails_iff validateAllowedTypes_iff validateSupportedLocales_iff
    by (auto simp: Let_def)
  show "(fst (TblConfig_Validate tc) \<noteq> None) =
      (AllowedTables tc = [] \<or> [] \<in> set (AllowedTables tc) \<or> \<not> distinct (AllowedTables tc)
       \<or> (let m = (if TblMaxContentLength tc = 0 then 10240 else TblMaxContentLength tc)
           in m < 1 \<or> 1048576 < m))"
    unfolding TblConfig_Validate_fails_iff by (auto simp: Let_def)
  show "(validateAllowedTypes c \<noteq> None) =
      (AllowedTypes c = [] \<or> [] \<in> set (AllowedTypes c) \<or> \<not> distinct (AllowedTypes c))"
    by (rule validateAllowedTypes_iff)
  show "(validateSupportedLocales c \<noteq> None) =
      (SupportedLocales c = [] \<or> [] \<in> set (SupportedLocales c)
       \<or> \<not> distinct (SupportedLocales c))"
    by (rule validateSupportedLocales_iff)
qed (simp_all add: Config_Validate_snd applyDefaults_eq TblConfig_Validate_snd)

theorem Config_Validate_contract_witness:
  "fst (Config_Validate
          \<lparr>AllowedTypes = [''posts'', ''articles''], SupportedLocales = [''en'', ''fr''],
           DefaultLocale = ''en'', PaginationLimit = 0, MaxPaginationLimit = 0,
           MaxContentLength = 0\<rparr>) = None
   \<and> snd (Config_Validate
          \<lparr>AllowedTypes = [''posts'', ''articles''], SupportedLocales = [''en'', ''fr''],
           DefaultLocale = ''en'', PaginationLimit = 0, MaxPaginationLimit = 0,
           MaxContentLength = 0\<rparr>) =
       \<lparr>AllowedTypes = [''posts'', ''articles''], SupportedLocales = [''en'', ''fr''],
        DefaultLocale = ''en'', PaginationLimit = 20, MaxPaginationLimit = 100,
        MaxContentLength = 10240\<rparr>
   \<and> fst (TblConfig_Validate \<lparr>AllowedTables = [''posts''], TblMaxContentLength = 0\<rparr>) = None
   \<and> snd (TblConfig_Validate \<lparr>AllowedTables = [''posts''], TblMaxContentLength = 0\<rparr>) =
       \<lparr>AllowedTables = [''posts''], TblMaxContentLength = 10240\<rparr>"
proof -
  let ?c = "\<lparr>AllowedTypes = [''posts'', ''articles''], SupportedLocales = [''en'', ''fr''],
             DefaultLocale = ''en'', PaginationLimit = 0, MaxPaginationLimit = 0,
             MaxContentLength = 0\<rparr>"
  let ?tc = "\<lparr>AllowedTables = [''posts''], TblMaxContentLength = 0\<rparr>"
  note t = Config_Validate_contract [of ?c ?tc]
  have ok: "fst (Config_Validate ?c) = None"
    by (simp add: Config_Validate_fst validateAllowedTypes_def validateSupportedLocales_def
          validateDefaultLocale_def)
  have tok: "fst (TblConfig_Validate ?tc) = None"
    by (simp add: TblConfig_Validate_fst)
  have a: "snd (Config_Validate ?c) =
       \<lparr>AllowedTypes = [''posts'', ''articles''], SupportedLocales = [''en'', ''fr''],
        DefaultLocale = ''en'', PaginationLimit = 20, MaxPaginationLimit = 100,
        MaxContentLength = 10240\<rparr>"
    using t [THEN conjunct2, THEN conjunct2, THEN conjunct2, THEN conjunct1, rule_format, OF ok]
    by simp
  have b: "snd (TblConfig_Validate ?tc) = \<lparr>AllowedTables = [''posts''], TblMaxContentLength = 10240\<rparr>"
    using t [THEN conjunct2, THEN conjunct2, THEN conjunct2, THEN conjunct2, THEN conjunct2,
             rule_format, OF tok]
    by simp
  show ?thesis using ok tok a b by (intro conjI)
qed

text \<open>
  Claim C4.  \<open>IsAllowedType(name)\<close> is true exactly when \<open>name\<close> is an element of the
  configured allowed types, compared byte by byte, and \<open>IsSupportedLocale\<close> and
  \<open>IsAllowedTable\<close> likewise over their lists.  For a configuration that \<open>Validate\<close>
  accepts, before and after the call, all of them are false on the empty string; and
  \<open>IsAllowedType("Posts")\<close> is false when only \<open>"posts"\<close> is configured.
\<close>

theorem membership_predicates_exact:
  "IsAllowedType c name = (name \<in> set (AllowedTypes c))
   \<and> IsSupportedLocale c code = (code \<in> set (SupportedLocales c))
   \<and> IsAllowedTable tc name = (name \<in> set (AllowedTables tc))
   \<and> (fst (Config_Validate c) = None \<longrightarrow>
        \<not> IsAllowedType c [] \<and> \<not> IsSupportedLocale c []
        \<and> \<not> IsAllowedType (snd (Config_Validate c)) []
        \<and> \<not> IsSupportedLocale (snd (Config_Validate c)) [])
   \<and> (fst (TblConfig_Validate tc) = None \<longrightarrow>
        \<not> IsAllowedTable tc [] \<and> \<not> IsAllowedTable (snd (TblConfig_Validate tc)) [])
   \<and> (AllowedTypes c = [''posts''] \<longrightarrow> \<not> IsAllowedType c ''Posts'')
   \<and> (AllowedTables tc = [''posts''] \<longrightarrow> \<not> IsAllowedTable tc ''Posts'')"
proof (intro conjI impI)
  assume ok: "fst (Config_Validate c) = None"
  then have "\<not> (fst (Config_Validate c) \<noteq> None)" by simp
  then have e: "[] \<notin> set (AllowedTypes c)" "[] \<notin> set (SupportedLocales c)"
    unfolding Config_Validate_fails_iff by simp_all
  show "\<not> IsAllowedType c []" "\<not> IsSupportedLocale c []"
    using e by (simp_all add: IsAllowedType_def IsSupportedLocale_def range_has_iff)
  show "\<not> IsAllowedType (snd (Config_Validate c)) []"
       "\<not> IsSupportedLocale (snd (Config_Validate c)) []"
    using e ok
    by (simp_all add: IsAllowedType_def IsSupportedLocale_def range_has_iff
          Config_Validate_snd applyDefaults_eq)
next
  assume ok: "fst (TblConfig_Validate tc) = None"
  then have "\<not> (fst (TblConfig_Validate tc) \<noteq> None)" by simp
  then have e: "[] \<notin> set (AllowedTables tc)"
    unfolding TblConfig_Validate_fails_iff by simp
  show "\<not> IsAllowedTable tc []" "\<not> IsAllowedTable (snd (TblConfig_Validate tc)) []"
    using e ok by (simp_all add: IsAllowedTable_def range_has_iff TblConfig_Validate_snd)
qed (simp_all add: IsAllowedType_def IsSupportedLocale_def IsAllowedTable_def range_has_iff)

theorem membership_predicates_exact_witness:
  "fst (Config_Validate
          \<lparr>AllowedTypes = [''posts''], SupportedLocales = [''en'', ''fr''],
           DefaultLocale = ''en'', PaginationLimit = 20, MaxPaginationLimit = 100,
           MaxContentLength = 10240\<rparr>) = None
   \<and> IsAllowedType
          \<lparr>AllowedTypes = [''posts''], SupportedLocales = [''en'', ''fr''],
           DefaultLocale = ''en'', PaginationLimit = 20, MaxPaginationLimit = 100,
           MaxContentLength = 10240\<rparr> ''posts''
   \<and> \<not> IsAllowedType
          \<lparr>AllowedTypes = [''posts''], SupportedLocales = [''en'', ''fr''],
           DefaultLocale = ''en'', PaginationLimit = 20, MaxPaginationLimit = 100,
           MaxContentLength = 10240\<rparr> ''Posts''
   \<and> \<not> IsAllowedType
          \<lparr>AllowedTypes = [''posts''], SupportedLocales = [''en'', ''fr''],
           DefaultLocale = ''en'', PaginationLimit = 20, MaxPaginationLimit = 100,
           MaxContentLength = 10240\<rparr> []
   \<and> \<not> IsSupportedLocale
          \<lparr>AllowedTypes = [''posts''], SupportedLocales = [''en'', ''fr''],
           DefaultLocale = ''en'', PaginationLimit = 20, MaxPaginationLimit = 100,
           MaxContentLength = 10240\<rparr> []
   \<and> fst (TblConfig_Validate \<lparr>AllowedTables = [''posts''], TblMaxContentLength = 100\<rparr>) = None
   \<and> \<not> IsAllowedTable \<lparr>AllowedTables = [''posts''], TblMaxContentLength = 100\<rparr> ''Posts''
   \<and> \<not> IsAllowedTable \<lparr>AllowedTables = [''posts''], TblMaxContentLength = 100\<rparr> []"
proof -
  let ?c = "\<lparr>AllowedTypes = [''posts''], SupportedLocales = [''en'', ''fr''],
             DefaultLocale = ''en'', PaginationLimit = 20, MaxPaginationLimit = 100,
             MaxContentLength = 10240\<rparr>"
  let ?tc = "\<lparr>AllowedTables = [''posts''], TblMaxContentLength = 100\<rparr>"
  note t = membership_predicates_exact [of ?c _ _ ?tc]
  have ok: "fst (Config_Validate ?c) = None"
    by (simp add: Config_Validate_fst validateAllowedTypes_def validateSupportedLocales_def
          validateDefaultLocale_def)
  have tok: "fst (TblConfig_Validate ?tc) = None"
    by (simp add: TblConfig_Validate_fst)
  have a: "IsAllowedType ?c ''posts''"
    using t [of "''posts''", THEN conjunct1] by simp
  have b: "\<not> IsAllowedType ?c ''Posts''"
    using t [THEN conjunct2, THEN conjunct2, THEN conjunct2, THEN conjunct2, THEN conjunct2,
             THEN conjunct1]
    by simp
  have d: "\<not> IsAllowedType ?c [] \<and> \<not> IsSupportedLocale ?c []"
    using t [THEN conjunct2, THEN conjunct2, THEN conjunct2, THEN conjunct1, rule_format, OF ok]
    by simp
  have e: "\<not> IsAllowedTable ?tc ''Posts''"
    using t [THEN conjunct2, THEN conjunct2, THEN conjunct2, THEN conjunct2, THEN conjunct2,
             THEN conjunct2]
    by simp
  have f: "\<not> IsAllowedTable ?tc []"
    using t [THEN conjunct2, THEN conjunct2, THEN conjunct2, THEN conjunct2, THEN conjunct1,
             rule_format, OF tok]
    by simp
  show ?thesis using ok tok a b d e f by (intro conjI) simp_all
qed

section \<open>Trimming and escaping\<close>






lemma length_htmlEscaper: "1 \<le> length (htmlEscaper c)"
  by (simp add: htmlEscaper_def)

lemma length_EscapeString: "length s \<le> length (EscapeString s)"
proof (induction s)
  case Nil
  then show ?case by (simp add: EscapeString_def)
next
  case (Cons c s)
  then show ?case using length_htmlEscaper [of c] by (simp add: EscapeString_def)
qed





lemma EscapeString_eq_Nil: "(EscapeString s = []) = (s = [])"
proof
  assume "EscapeString s = []"
  then have "length s \<le> 0" using length_EscapeString [of s] by simp
  then show "s = []" by simp
next
  assume "s = []"
  then show "EscapeString s = []" by (simp add: EscapeString_def)
qed

lemma TrimSpace_examples:
  "TrimSpace [] = []" "TrimSpace ''   '' = []" "TrimSpace ''  Hello world  '' = ''Hello world''"
  by (simp_all add: TrimSpace_def TrimLeftSpace_def TrimRightSpace_def white_space_def)

section \<open>The validation of requests\<close>

lemma first_failure_simps:
  "first_failure [] = None"
  "first_failure ((b, m) # cs) = (if b then Some (New m) else first_failure cs)"
  by (simp_all add: first_failure_def)

lemma Create_Validate_fst:
  "fst (Create_Validate parse cfg r) =
     first_failure
       [(isl (parse (c_TranslatableID r)), ''translatable_id must be a valid UUID''),
        (\<not> IsAllowedType cfg (c_Translatable r), ''translatable type is not allowed''),
        (\<not> IsSupportedLocale cfg (c_Locale r), ''locale is not supported''),
        (TrimSpace (c_Content r) = [], ''content cannot be empty''),
        (MaxContentLength cfg < int (length (TrimSpace (c_Content r))),
         ''content exceeds maximum length'')]"
  by (cases "parse (c_TranslatableID r)")
     (simp_all add: Create_Validate_def first_failure_simps Let_def)

lemma Create_Validate_snd:
  "snd (Create_Validate parse cfg r) =
     (if isl (parse (c_TranslatableID r)) \<or> \<not> IsAllowedType cfg (c_Translatable r)
         \<or> \<not> IsSupportedLocale cfg (c_Locale r) then r
      else if TrimSpace (c_Content r) = []
         \<or> MaxContentLength cfg < int (length (TrimSpace (c_Content r)))
      then r\<lparr>c_Content := TrimSpace (c_Content r)\<rparr>
      else r\<lparr>c_Content := EscapeString (TrimSpace (c_Content r))\<rparr>)"
  by (cases "parse (c_TranslatableID r)")
     (simp_all add: Create_Validate_def Let_def)

lemma Update_Validate_fst:
  "fst (Update_Validate cfg u) =
     first_failure
       [(\<not> IsSupportedLocale cfg (u_Locale u), ''locale is not supported''),
        (TrimSpace (u_Content u) = [], ''content cannot be empty''),
        (MaxContentLength cfg < int (length (TrimSpace (u_Content u))),
         ''content exceeds maximum length'')]"
  by (simp add: Update_Validate_def first_failure_simps Let_def)

lemma Update_Validate_snd:
  "snd (Update_Validate cfg u) =
     (if \<not> IsSupportedLocale cfg (u_Locale u) then u
      else if TrimSpace (u_Content u) = []
         \<or> MaxContentLength cfg < int (length (TrimSpace (u_Content u)))
      then u\<lparr>u_Content := TrimSpace (u_Content u)\<rparr>
      else u\<lparr>u_Content := EscapeString (TrimSpace (u_Content u))\<rparr>)"
  by (simp add: Update_Validate_def Let_def)

lemma Tbl_Create_Validate_fst:
  "fst (Tbl_Create_Validate parse tcfg tr) =
     first_failure
       [(isl (parse (tc_TranslatableID tr)), ''translatable_id must be a valid UUID''),
        (\<not> IsAllowedTable tcfg (tc_Translatable tr), ''translatable type is not allowed''),
        (TrimSpace (tc_Content tr) = [], ''content cannot be empty''),
        (TblMaxContentLength tcfg < int (length (TrimSpace (tc_Content tr))),
         ''content exceeds maximum length'')]"
  by (cases "parse (tc_TranslatableID tr)")
     (simp_all add: Tbl_Create_Validate_def first_failure_simps Let_def)

lemma Tbl_Create_Validate_snd:
  "snd (Tbl_Create_Validate parse tcfg tr) =
     (if isl (parse (tc_TranslatableID tr)) \<or> \<not> IsAllowedTable tcfg (tc_Translatable tr) then tr
      else if TrimSpace (tc_Content tr) = []
         \<or> TblMaxContentLength tcfg < int (length (TrimSpace (tc_Content tr)))
      then tr\<lparr>tc_Content := TrimSpace (tc_Content tr)\<rparr>
      else tr\<lparr>tc_Content := EscapeString (TrimSpace (tc_Content tr))\<rparr>)"
  by (cases "parse (tc_TranslatableID tr)")
     (simp_all add: Tbl_Create_Validate_def Let_def)

lemma Tbl_Update_Validate_fst:
  "fst (Tbl_Update_Validate tcfg tu) =
     first_failure
       [(TrimSpace (tu_Content tu) = [], ''content cannot be empty''),
        (TblMaxContentLength tcfg < int (length (TrimSpace (tu_Content tu))),
         ''content exceeds maximum length'')]"
  by (simp add: Tbl_Update_Validate_def first_failure_simps Let_def)

lemma Tbl_Update_Validate_snd:
  "snd (Tbl_Update_Validate tcfg tu) =
     (if TrimSpace (tu_Content tu) = []
         \<or> TblMaxContentLength tcfg < int (length (TrimSpace (tu_Content tu)))
      then tu\<lparr>tu_Content := TrimSpace (tu_Content tu)\<rparr>
      else tu\<lparr>tu_Content := EscapeString (TrimSpace (tu_Content tu))\<rparr>)"
  by (simp add: Tbl_Update_Validate_def Let_def)

lemmas eval_strings =
  first_failure_simps parse_only_def IsAllowedType_def IsSupportedLocale_def IsAllowedTable_def
  TrimSpace_def TrimLeftSpace_def TrimRightSpace_def white_space_def EscapeString_def
  htmlEscaper_def

section \<open>Claims about the validation of requests\<close>

text \<open>
  Claim C1.  \<open>Validate(config)\<close> of a create or update request runs its checks in a fixed
  order and returns the error of the first that fails: for a create request that
  \<open>translatableId\<close> parses as a UUID, then that \<open>translatable\<close> is an allowed type, then
  (where the request has a locale) that the locale is supported, then that the content,
  trimmed of surrounding white space, is not empty, then that the trimmed content is no
  longer than \<open>MaxContentLength\<close>; an update request has the checks of the fields it has.
  The request is changed in place: it is untouched when a check before the trimming
  fails, holds the trimmed content when a check of the content fails, and holds the
  escaped trimmed content only when every check has passed.  The bound is inclusive: with
  the earlier checks passed, the request is accepted exactly when the trimmed length is at
  most the maximum.
\<close>

theorem Validate_order_of_checks:
  "fst (Create_Validate parse cfg r) =
     first_failure
       [(isl (parse (c_TranslatableID r)), ''translatable_id must be a valid UUID''),
        (\<not> IsAllowedType cfg (c_Translatable r), ''translatable type is not allowed''),
        (\<not> IsSupportedLocale cfg (c_Locale r), ''locale is not supported''),
        (TrimSpace (c_Content r) = [], ''content cannot be empty''),
        (MaxContentLength cfg < int (length (TrimSpace (c_Content r))),
         ''content exceeds maximum length'')]
   \<and> snd (Create_Validate parse cfg r) =
     (if isl (parse (c_TranslatableID r)) \<or> \<not> IsAllowedType cfg (c_Translatable r)
         \<or> \<not> IsSupportedLocale cfg (c_Locale r) then r
      else if fst (Create_Validate parse cfg r) \<noteq> None
      then r\<lparr>c_Content := TrimSpace (c_Content r)\<rparr>
      else r\<lparr>c_Content := EscapeString (TrimSpace (c_Content r))\<rparr>)
   \<and> fst (Update_Validate cfg u) =
     first_failure
       [(\<not> IsSupportedLocale cfg (u_Locale u), ''locale is not supported''),
        (TrimSpace (u_Content u) = [], ''content cannot be empty''),
        (MaxContentLength cfg < int (length (TrimSpace (u_Content u))),
         ''content exceeds maximum length'')]
   \<and> snd (Update_Validate cfg u) =
     (if \<not> IsSupportedLocale cfg (u_Locale u) then u
      else if fst (Update_Validate cfg u) \<noteq> None
      then u\<lparr>u_Content := TrimSpace (u_Content u)\<rparr>
      else u\<lparr>u_Content := EscapeString (TrimSpace (u_Content u))\<rparr>)
   \<and> fst (Tbl_Create_Validate parse tcfg tr) =
     first_failure
       [(isl (parse (tc_TranslatableID tr)), ''translatable_id must be a valid UUID''),
        (\<not> IsAllowedTable tcfg (tc_Translatable tr), ''translatable type is not allowed''),
        (TrimSpace (tc_Content tr) = [], ''content cannot be empty''),
        (TblMaxContentLength tcfg < int (length (TrimSpace (tc_Content tr))),
         ''content exceeds maximum length'')]
   \<and> snd (Tbl_Create_Validate parse tcfg tr) =
     (if isl (parse (tc_TranslatableID tr)) \<or> \<not> IsAllowedTable tcfg (tc_Translatable tr) then tr
      else if fst (Tbl_Create_Validate parse tcfg tr) \<noteq> None
      then tr\<lparr>tc_Content := TrimSpace (tc_Content tr)\<rparr>
      else tr\<lparr>tc_Content := EscapeString (TrimSpace (tc_Content tr))\<rparr>)
   \<and> fst (Tbl_Update_Validate tcfg tu) =
     first_failure
       [(TrimSpace (tu_Content tu) = [], ''content cannot be empty''),
        (TblMaxContentLength tcfg < int (length (TrimSpace (tu_Content tu))),
         ''content exceeds maximum length'')]
   \<and> snd (Tbl_Update_Validate tcfg tu) =
     (if fst (Tbl_Update_Validate tcfg tu) \<noteq> None
      then tu\<lparr>tu_Content := TrimSpace (tu_Content tu)\<rparr>
      else tu\<lparr>tu_Content := EscapeString (TrimSpace (tu_Content tu))\<rparr>)
   \<and> (\<not> isl (parse (c_TranslatableID r)) \<and> IsAllowedType cfg (c_Translatable r)
        \<and> IsSupportedLocale cfg (c_Locale r) \<and> TrimSpace (c_Content r) \<noteq> [] \<longrightarrow>
        (fst (Create_Validate parse cfg r) = None) =
          (int (length (TrimSpace (c_Content r))) \<le> MaxContentLength cfg))
   \<and> (IsSupportedLocale cfg (u_Locale u) \<and> TrimSpace (u_Content u) \<noteq> [] \<longrightarrow>
        (fst (Update_Validate cfg u) = None) =
          (int (length (TrimSpace (u_Content u))) \<le> MaxContentLength cfg))
   \<and> (\<not> isl (parse (tc_TranslatableID tr)) \<and> IsAllowedTable tcfg (tc_Translatable tr)
        \<and> TrimSpace (tc_Content tr) \<noteq> [] \<longrightarrow>
        (fst (Tbl_Create_Validate parse tcfg tr) = None) =
          (int (length (TrimSpace (tc_Content tr))) \<le> TblMaxContentLength tcfg))
   \<and> (TrimSpace (tu_Content tu) \<noteq> [] \<longrightarrow>
        (fst (Tbl_Update_Validate tcfg tu) = None) =
          (int (length (TrimSpace (tu_Content tu))) \<le> TblMaxContentLength tcfg))"
proof (intro conjI)
  show "snd (Create_Validate parse cfg r) =
     (if isl (parse (c_TranslatableID r)) \<or> \<not> IsAllowedType cfg (c_Translatable r)
         \<or> \<not> IsSupportedLocale cfg (c_Locale r) then r
      else if fst (Create_Validate parse cfg r) \<noteq> None
      then r\<lparr>c_Content := TrimSpace (c_Content r)\<rparr>
      else r\<lparr>c_Content := EscapeString (TrimSpace (c_Content r))\<rparr>)"
    unfolding Create_Validate_snd Create_Validate_fst by (simp add: first_failure_simps)
  show "snd (Update_Validate cfg u) =
     (if \<not> IsSupportedLocale cfg (u_Locale u) then u
      else if fst (Update_Validate cfg u) \<noteq> None
      then u\<lparr>u_Content := TrimSpace (u_Content u)\<rparr>
      else u\<lparr>u_Content := EscapeString (TrimSpace (u_Content u))\<rparr>)"
    unfolding Update_Validate_snd Update_Validate_fst by (simp add: first_failure_simps)
  show "snd (Tbl_Create_Validate parse tcfg tr) =
     (if isl (parse (tc_TranslatableID tr)) \<or> \<not> IsAllowedTable tcfg (tc_Translatable tr) then tr
      else if fst (Tbl_Create_Validate parse tcfg tr) \<noteq> None
      then tr\<lparr>tc_Content := TrimSpace (tc_Content tr)\<rparr>
      else tr\<lparr>tc_Content := EscapeString (TrimSpace (tc_Content tr))\<rparr>)"
    unfolding Tbl_Create_Validate_snd Tbl_Create_Validate_fst by (simp add: first_failure_simps)
  show "snd (Tbl_Update_Validate tcfg tu) =
     (if fst (Tbl_Update_Validate tcfg tu) \<noteq> None
      then tu\<lparr>tu_Content := TrimSpace (tu_Content tu)\<rparr>
      else tu\<lparr>tu_Content := EscapeString (TrimSpace (tu_Content tu))\<rparr>)"
    unfolding Tbl_Update_Validate_snd Tbl_Update_Validate_fst by (simp add: first_failure_simps)
  show "\<not> isl (parse (c_TranslatableID r)) \<and> IsAllowedType cfg (c_Translatable r)
        \<and> IsSupportedLocale cfg (c_Locale r) \<and> TrimSpace (c_Content r) \<noteq> [] \<longrightarrow>
        (fst (Create_Validate parse cfg r) = None) =
          (int (length (TrimSpace (c_Content r))) \<le> MaxContentLength cfg)"
    unfolding Create_Validate_fst by (auto simp: first_failure_simps)
  show "IsSupportedLocale cfg (u_Locale u) \<and> TrimSpace (u_Content u) \<noteq> [] \<longrightarrow>
        (fst (Update_Validate cfg u) = None) =
          (int (length (TrimSpace (u_Content u))) \<le> MaxContentLength cfg)"
    unfolding Update_Validate_fst by (auto simp: first_failure_simps)
  show "\<not> isl (parse (tc_TranslatableID tr)) \<and> IsAllowedTable tcfg (tc_Translatable tr)
        \<and> TrimSpace (tc_Content tr) \<noteq> [] \<longrightarrow>
        (fst (Tbl_Create_Validate parse tcfg tr) = None) =
          (int (length (TrimSpace (tc_Content tr))) \<le> TblMaxContentLength tcfg)"
    unfolding Tbl_Create_Validate_fst by (auto simp: first_failure_simps)
  show "TrimSpace (tu_Content tu) \<noteq> [] \<longrightarrow>
        (fst (Tbl_Update_Validate tcfg tu) = None) =
          (int (length (TrimSpace (tu_Content tu))) \<le> TblMaxContentLength tcfg)"
    unfolding Tbl_Update_Validate_fst by (auto simp: first_failure_simps)
qed (rule Create_Validate_fst Update_Validate_fst Tbl_Create_Validate_fst
       Tbl_Update_Validate_fst)+

theorem Validate_order_of_checks_witness:
  "fst (Create_Validate (parse_only ''550e8400-e29b-41d4-a716-446655440000'' (UUID ''t''))
          \<lparr>AllowedTypes = [''posts''], SupportedLocales = [''en''], DefaultLocale = ''en'',
           PaginationLimit = 20, MaxPaginationLimit = 100, MaxContentLength = 5\<rparr>
          \<lparr>c_TranslatableID = ''550e8400-e29b-41d4-a716-446655440000'',
           c_Translatable = ''posts'', c_Locale = ''en'', c_Content = ''  a<b c ''\<rparr>) = None
   \<and> c_Content (snd (Create_Validate
          (parse_only ''550e8400-e29b-41d4-a716-446655440000'' (UUID ''t''))
          \<lparr>AllowedTypes = [''posts''], SupportedLocales = [''en''], DefaultLocale = ''en'',
           PaginationLimit = 20, MaxPaginationLimit = 100, MaxContentLength = 5\<rparr>
          \<lparr>c_TranslatableID = ''550e8400-e29b-41d4-a716-446655440000'',
           c_Translatable = ''posts'', c_Locale = ''en'', c_Content = ''  a<b c ''\<rparr>))
       = ''a&lt;b c''
   \<and> fst (Update_Validate
          \<lparr>AllowedTypes = [''posts''], SupportedLocales = [''en''], DefaultLocale = ''en'',
           PaginationLimit = 20, MaxPaginationLimit = 100, MaxContentLength = 5\<rparr>
          \<lparr>u_Locale = ''en'', u_Content = '' abcdef ''\<rparr>)
       = Some (New ''content exceeds maximum length'')
   \<and> u_Content (snd (Update_Validate
          \<lparr>AllowedTypes = [''posts''], SupportedLocales = [''en''], DefaultLocale = ''en'',
           PaginationLimit = 20, MaxPaginationLimit = 100, MaxContentLength = 5\<rparr>
          \<lparr>u_Locale = ''en'', u_Content = '' abcdef ''\<rparr>)) = ''abcdef''
   \<and> fst (Tbl_Create_Validate
          (parse_only ''550e8400-e29b-41d4-a716-446655440000'' (UUID ''t''))
          \<lparr>AllowedTables = [''posts''], TblMaxContentLength = 5\<rparr>
          \<lparr>tc_TranslatableID = ''not-a-uuid'', tc_Translatable = ''categories'',
           tc_Content = ''   ''\<rparr>)
       = Some (New ''translatable_id must be a valid UUID'')
   \<and> fst (Tbl_Update_Validate \<lparr>AllowedTables = [''posts''], TblMaxContentLength = 5\<rparr>
          \<lparr>tu_Content = ''   ''\<rparr>) = Some (New ''content cannot be empty'')"
proof -
  let ?P = "parse_only ''550e8400-e29b-41d4-a716-446655440000'' (UUID ''t'')"
  let ?cfg = "\<lparr>AllowedTypes = [''posts''], SupportedLocales = [''en''], DefaultLocale = ''en'',
           PaginationLimit = 20, MaxPaginationLimit = 100, MaxContentLength = 5\<rparr>"
  let ?r = "\<lparr>c_TranslatableID = ''550e8400-e29b-41d4-a716-446655440000'',
           c_Translatable = ''posts'', c_Locale = ''en'', c_Content = ''  a<b c ''\<rparr>"
  let ?u = "\<lparr>u_Locale = ''en'', u_Content = '' abcdef ''\<rparr>"
  let ?tcfg = "\<lparr>AllowedTables = [''posts''], TblMaxContentLength = 5\<rparr>"
  let ?tr = "\<lparr>tc_TranslatableID = ''not-a-uuid'', tc_Translatable = ''categories'',
           tc_Content = ''   ''\<rparr>"
  let ?tu = "\<lparr>tu_Content = ''   ''\<rparr>"
  note t = Validate_order_of_checks [of ?P ?cfg ?r ?u ?tcfg ?tr ?tu]
  have trim: "TrimSpace ''  a<b c '' = ''a<b c''" "TrimSpace '' abcdef '' = ''abcdef''"
    "TrimSpace ''   '' = []"
    by (simp_all add: eval_strings)
  have pre: "\<not> isl (?P (c_TranslatableID ?r)) \<and> IsAllowedType ?cfg (c_Translatable ?r)
        \<and> IsSupportedLocale ?cfg (c_Locale ?r) \<and> TrimSpace (c_Content ?r) \<noteq> []"
    by (simp add: trim) (simp add: eval_strings)
  have a: "fst (Create_Validate ?P ?cfg ?r) = None"
    using t [THEN conjunct2, THEN conjunct2, THEN conjunct2, THEN conjunct2, THEN conjunct2,
             THEN conjunct2, THEN conjunct2, THEN conjunct2, THEN conjunct1, rule_format, OF pre]
    by (simp add: trim)
  have b: "c_Content (snd (Create_Validate ?P ?cfg ?r)) = ''a&lt;b c''"
    using t [THEN conjunct2, THEN conjunct1] a pre
    by (simp add: trim) (simp add: EscapeString_def htmlEscaper_def)
  have c: "fst (Update_Validate ?cfg ?u) = Some (New ''content exceeds maximum length'')"
    using t [THEN conjunct2, THEN conjunct2, THEN conjunct1]
    by (simp add: trim) (simp add: eval_strings)
  have d: "u_Content (snd (Update_Validate ?cfg ?u)) = ''abcdef''"
    using t [THEN conjunct2, THEN conjunct2, THEN conjunct2, THEN conjunct1] c
    by (simp add: trim) (simp add: eval_strings)
  have e: "fst (Tbl_Create_Validate ?P ?tcfg ?tr) = Some (New ''translatable_id must be a valid UUID'')"
    using t [THEN conjunct2, THEN conjunct2, THEN conjunct2, THEN conjunct2, THEN conjunct1]
    by (simp add: first_failure_simps parse_only_def)
  have f: "fst (Tbl_Update_Validate ?tcfg ?tu) = Some (New ''content cannot be empty'')"
    using t [THEN conjunct2, THEN conjunct2, THEN conjunct2, THEN conjunct2, THEN conjunct2,
             THEN conjunct2, THEN conjunct1]
    by (simp add: trim first_failure_simps)
  show ?thesis using a b c d e f by (intro conjI)
qed

section \<open>The statements the handlers issue\<close>

lemma db_Exec_eq:
  "db_Exec db q a w =
     (fst (Exec db q a (db_state w)),
      \<lparr>db_state = snd (Exec db q a (db_state w)), issued = issued w @ [(q, a)]\<rparr>)"
  by (simp add: db_Exec_def split: prod.splits)


lemma db_QueryRowInt_eq:
  "db_QueryRowInt db q a w =
     (fst (QueryRowInt db q a (db_state w)),
      \<lparr>db_state = snd (QueryRowInt db q a (db_state w)), issued = issued w @ [(q, a)]\<rparr>)"
  by (simp add: db_QueryRowInt_def split: prod.splits)

lemma db_Query_eq:
  "db_Query db q a w =
     (fst (Query db q a (db_state w)),
      \<lparr>db_state = snd (Query db q a (db_state w)), issued = issued w @ [(q, a)]\<rparr>)"
  by (simp add: db_Query_def split: prod.splits)



lemma deleteFromDB_issued:
  "issued (snd (deleteFromDB db rowID userID w)) =
     issued w @ [deleteFromDB_statement rowID userID]"
  by (simp add: deleteFromDB_def db_Exec_eq split: sum.splits)




lemma repository_Delete_issued:
  "issued (snd (repository_Delete db rowID userID w)) =
     issued w @ [repository_Delete_statement rowID userID]"
  by (simp add: repository_Delete_def db_Exec_eq split: sum.splits)







lemma Resource_Create_invalid:
  "fst (Create_Validate parse config req) \<noteq> None \<Longrightarrow>
   Resource_Create parse newID now db config c (Inr req) w =
     ((400, ErrorBody (Error (the (fst (Create_Validate parse config req))))), w)"
  by (cases "Create_Validate parse config req") (auto simp: Resource_Create_def)

lemma Resource_Create_undecoded:
  "Resource_Create parse newID now db config c (Inl err) w =
     ((400, ErrorBody ''Invalid request body''), w)"
  by (simp add: Resource_Create_def)


text \<open>The two messages of a mutation that affected no row.\<close>

lemma updateInDB_fst:
  "fst (updateInDB db now rowID content locale userID w) =
     (case fst (Exec db (fst (updateInDB_statement now rowID content locale userID))
                  (snd (updateInDB_statement now rowID content locale userID)) (db_state w)) of
        Inl err \<Rightarrow> Some err
      | Inr (Inl err) \<Rightarrow> Some err
      | Inr (Inr n) \<Rightarrow>
          if n = 0 then
            (if userID \<noteq> None
             then Some (New (''translation not found or you don'' @ [CHR 0x27]
                             @ ''t have permission to update it''))
             else Some (New ''translation not found''))
          else None)"
  by (simp add: updateInDB_def db_Exec_eq split: sum.splits)

lemma deleteFromDB_fst:
  "fst (deleteFromDB db rowID userID w) =
     (case fst (Exec db (fst (deleteFromDB_statement rowID userID))
                  (snd (deleteFromDB_statement rowID userID)) (db_state w)) of
        Inl err \<Rightarrow> Some err
      | Inr (Inl err) \<Rightarrow> Some err
      | Inr (Inr n) \<Rightarrow>
          if n = 0 then
            (if userID \<noteq> None
             then Some (New (''translation not found or you don'' @ [CHR 0x27]
                             @ ''t have permission to delete it''))
             else Some (New ''translation not found''))
          else None)"
  by (simp add: deleteFromDB_def db_Exec_eq split: sum.splits)

lemma repository_Update_fst:
  "fst (repository_Update db now rowID content userID w) =
     (case fst (Exec db (fst (repository_Update_statement now rowID content userID))
                  (snd (repository_Update_statement now rowID content userID)) (db_state w)) of
        Inl err \<Rightarrow> Some (Wrap ''failed to update translatable: '' err)
      | Inr (Inl err) \<Rightarrow> Some (Wrap ''failed to get rows affected: '' err)
      | Inr (Inr n) \<Rightarrow>
          if n = 0 then
            (if userID \<noteq> None
             then Some (New (''translatable not found or you don'' @ [CHR 0x27]
                             @ ''t have permission to update it''))
             else Some (New ''translatable not found''))
          else None)"
  by (simp add: repository_Update_def db_Exec_eq split: sum.splits)

lemma repository_Delete_fst:
  "fst (repository_Delete db rowID userID w) =
     (case fst (Exec db (fst (repository_Delete_statement rowID userID))
                  (snd (repository_Delete_statement rowID userID)) (db_state w)) of
        Inl err \<Rightarrow> Some (Wrap ''failed to delete translatable: '' err)
      | Inr (Inl err) \<Rightarrow> Some (Wrap ''failed to get rows affected: '' err)
      | Inr (Inr n) \<Rightarrow>
          if n = 0 then
            (if userID \<noteq> None
             then Some (New (''translatable not found or you don'' @ [CHR 0x27]
                             @ ''t have permission to delete it''))
             else Some (New ''translatable not found''))
          else None)"
  by (simp add: repository_Delete_def db_Exec_eq split: sum.splits)



lemma Resource_Delete_valid:
  assumes rid: "parse (Params c ''id'') = Inr rowID"
  shows "Resource_Delete parse db c w =
     (let r1 = deleteFromDB db rowID (getUserIDFromFiberContext parse c) w
      in case fst r1 of
           Some err \<Rightarrow>
             (if Error err = ''translation not found'' \<or>
                 Error err = ''translation not found or you don'' @ [CHR 0x27]
                               @ ''t have permission to delete it''
              then (404, ErrorBody (Error err))
              else (500, ErrorBody ''Failed to delete translation''), snd r1)
         | None \<Rightarrow> ((200, MessageBody ''Translation deleted successfully''), snd r1))"
  unfolding Resource_Delete_def
  by (simp add: rid Let_def split: prod.splits option.splits)


lemma Handler_Update_rejects:
  "isl (parse (request_idStr r)) \<or> isl decoded
     \<or> (\<exists>req. decoded = Inr req \<and> fst (Tbl_Update_Validate config req) \<noteq> None) \<Longrightarrow>
   fst (fst (Handler_Update parse repo config r decoded w)) = 400
   \<and> snd (Handler_Update parse repo config r decoded w) = w"
  by (cases "parse (request_idStr r)"; cases decoded)
     (auto simp: Handler_Update_def split: prod.splits option.splits)

lemma Handler_Delete_valid:
  assumes rid: "parse (request_idStr r) = Inr rowID"
  shows "Handler_Delete parse repo r w =
     (let r1 = repo_Delete repo rowID (getUserIDFromContext parse r) w
      in case fst r1 of
           Some err \<Rightarrow>
             (if Error err = ''translatable not found'' \<or>
                 Error err = ''translatable not found or you don'' @ [CHR 0x27]
                               @ ''t have permission to delete it''
              then (404, ErrorBody (Error err))
              else (500, ErrorBody ''Failed to delete translatable''), snd r1)
         | None \<Rightarrow> ((200, MessageBody ''Translatable deleted successfully''), snd r1))"
  unfolding Handler_Delete_def
  by (simp add: rid Let_def split: prod.splits option.splits)















lemma Handler_Create_rejects:
  "isl decoded \<or> (\<exists>req. decoded = Inr req \<and> fst (Tbl_Create_Validate parse config req) \<noteq> None) \<Longrightarrow>
   fst (fst (Handler_Create parse newID now repo config r decoded w)) = 400
   \<and> snd (Handler_Create parse newID now repo config r decoded w) = w"
  by (cases decoded) (auto simp: Handler_Create_def split: prod.splits option.splits)




section \<open>Claims about the stored content\<close>





section \<open>The validation of query parameters\<close>

lemma QueryParams_Validate_snd:
  "snd (QueryParams_Validate cfg q) =
     q\<lparr>Limit := (if Limit q = 0 then PaginationLimit cfg else Limit q)\<rparr>"
  by (simp add: QueryParams_Validate_def Let_def split: option.splits)

lemma QueryParams_Validate_fst:
  "fst (QueryParams_Validate cfg q) =
     first_failure
       [((if Limit q = 0 then PaginationLimit cfg else Limit q) < 1
           \<or> MaxPaginationLimit cfg < (if Limit q = 0 then PaginationLimit cfg else Limit q),
         ''limit out of range''),
        (Offset q < 0, ''offset must be non-negative''),
        ((case q_Locale q of Some l \<Rightarrow> \<not> IsSupportedLocale cfg l | None \<Rightarrow> False),
         ''locale is not supported'')]"
  by (simp add: QueryParams_Validate_def Let_def first_failure_simps split: option.splits)

lemma Tbl_QueryParams_Validate_snd:
  "snd (Tbl_QueryParams_Validate tq) = tq\<lparr>tq_Limit := (if tq_Limit tq = 0 then 20 else tq_Limit tq)\<rparr>"
  by (simp add: Tbl_QueryParams_Validate_def Let_def)

lemma Tbl_QueryParams_Validate_fst:
  "fst (Tbl_QueryParams_Validate tq) =
     first_failure
       [((if tq_Limit tq = 0 then 20 else tq_Limit tq) < 1
           \<or> 100 < (if tq_Limit tq = 0 then 20 else tq_Limit tq),
         ''limit must be between 1 and 100''),
        (tq_Offset tq < 0, ''offset must be non-negative'')]"
  by (simp add: Tbl_QueryParams_Validate_def Let_def first_failure_simps)

section \<open>Claims about the query parameters\<close>

text \<open>
  Claim C5, as the specification states it: for every configuration, a zero limit is
  replaced by the configured default and \<open>Validate\<close> then succeeds when the other fields
  are valid.  It fails for a configuration that \<open>Config.Validate\<close> accepts and leaves as it
  is, whose default of 200 exceeds its maximum of 100: the limit becomes 200 and is out of
  range.
\<close>

theorem QueryParams_Validate_zero_limit_counterexample:
  "fst (Config_Validate
          \<lparr>AllowedTypes = [''posts''], SupportedLocales = [''en''], DefaultLocale = ''en'',
           PaginationLimit = 200, MaxPaginationLimit = 100, MaxContentLength = 10240\<rparr>) = None
   \<and> snd (Config_Validate
          \<lparr>AllowedTypes = [''posts''], SupportedLocales = [''en''], DefaultLocale = ''en'',
           PaginationLimit = 200, MaxPaginationLimit = 100, MaxContentLength = 10240\<rparr>) =
       \<lparr>AllowedTypes = [''posts''], SupportedLocales = [''en''], DefaultLocale = ''en'',
        PaginationLimit = 200, MaxPaginationLimit = 100, MaxContentLength = 10240\<rparr>
   \<and> QueryParams_Validate
          \<lparr>AllowedTypes = [''posts''], SupportedLocales = [''en''], DefaultLocale = ''en'',
           PaginationLimit = 200, MaxPaginationLimit = 100, MaxContentLength = 10240\<rparr>
          \<lparr>q_TranslatableID = None, q_Translatable = None, q_Locale = None, q_UserID = None,
           Limit = 0, Offset = 0\<rparr> =
       (Some (New ''limit out of range''),
        \<lparr>q_TranslatableID = None, q_Translatable = None, q_Locale = None, q_UserID = None,
         Limit = 200, Offset = 0\<rparr>)"
  by (simp add: Config_Validate_def validateAllowedTypes_def validateSupportedLocales_def
        validateDefaultLocale_def applyDefaults_def QueryParams_Validate_def)

text \<open>
  Claim C5, amended.  \<open>QueryParams.Validate\<close> replaces a zero limit by the configured
  default and leaves every other field as it is; it then fails with the first of: the
  limit, after that substitution, lies outside 1 to \<open>MaxPaginationLimit\<close>; the offset is
  negative; a locale filter is present and not supported.  So a zero limit succeeds, the
  other fields being valid, exactly when the configured default itself lies in the range
  (as 20 does with a maximum of 100); a non-zero limit outside the range fails with the
  out-of-range error; a negative offset always fails; an unsupported locale filter always
  fails.  The variant without a configuration has the default 20 and the range 1 to 100
  built in, and there a zero limit with a valid offset always succeeds.
\<close>

theorem QueryParams_Validate_contract:
  "snd (QueryParams_Validate cfg q) =
     q\<lparr>Limit := (if Limit q = 0 then PaginationLimit cfg else Limit q)\<rparr>
   \<and> fst (QueryParams_Validate cfg q) =
     first_failure
       [((if Limit q = 0 then PaginationLimit cfg else Limit q) < 1
           \<or> MaxPaginationLimit cfg < (if Limit q = 0 then PaginationLimit cfg else Limit q),
         ''limit out of range''),
        (Offset q < 0, ''offset must be non-negative''),
        ((case q_Locale q of Some l \<Rightarrow> \<not> IsSupportedLocale cfg l | None \<Rightarrow> False),
         ''locale is not supported'')]
   \<and> (Limit q = 0 \<and> 1 \<le> PaginationLimit cfg \<and> PaginationLimit cfg \<le> MaxPaginationLimit cfg
       \<and> 0 \<le> Offset q \<and> (case q_Locale q of Some l \<Rightarrow> IsSupportedLocale cfg l | None \<Rightarrow> True) \<longrightarrow>
      QueryParams_Validate cfg q = (None, q\<lparr>Limit := PaginationLimit cfg\<rparr>))
   \<and> (Limit q \<noteq> 0 \<and> (Limit q < 1 \<or> MaxPaginationLimit cfg < Limit q) \<longrightarrow>
      fst (QueryParams_Validate cfg q) = Some (New ''limit out of range''))
   \<and> (Offset q < 0 \<longrightarrow> fst (QueryParams_Validate cfg q) \<noteq> None)
   \<and> (q_Locale q = Some l \<and> \<not> IsSupportedLocale cfg l \<longrightarrow>
      fst (QueryParams_Validate cfg q) \<noteq> None)
   \<and> snd (Tbl_QueryParams_Validate tq) =
     tq\<lparr>tq_Limit := (if tq_Limit tq = 0 then 20 else tq_Limit tq)\<rparr>
   \<and> fst (Tbl_QueryParams_Validate tq) =
     first_failure
       [((if tq_Limit tq = 0 then 20 else tq_Limit tq) < 1
           \<or> 100 < (if tq_Limit tq = 0 then 20 else tq_Limit tq),
         ''limit must be between 1 and 100''),
        (tq_Offset tq < 0, ''offset must be non-negative'')]
   \<and> (tq_Limit tq = 0 \<and> 0 \<le> tq_Offset tq \<longrightarrow>
      Tbl_QueryParams_Validate tq = (None, tq\<lparr>tq_Limit := 20\<rparr>))"
proof (intro conjI impI)
  assume "Limit q = 0 \<and> 1 \<le> PaginationLimit cfg \<and> PaginationLimit cfg \<le> MaxPaginationLimit cfg
       \<and> 0 \<le> Offset q \<and> (case q_Locale q of Some l \<Rightarrow> IsSupportedLocale cfg l | None \<Rightarrow> True)"
  then have "fst (QueryParams_Validate cfg q) = None"
    and "snd (QueryParams_Validate cfg q) = q\<lparr>Limit := PaginationLimit cfg\<rparr>"
    unfolding QueryParams_Validate_fst QueryParams_Validate_snd
    by (auto simp: first_failure_simps split: option.splits)
  then show "QueryParams_Validate cfg q = (None, q\<lparr>Limit := PaginationLimit cfg\<rparr>)"
    by (simp add: prod_eq_iff)
next
  assume "tq_Limit tq = 0 \<and> 0 \<le> tq_Offset tq"
  then have "fst (Tbl_QueryParams_Validate tq) = None"
    and "snd (Tbl_QueryParams_Validate tq) = tq\<lparr>tq_Limit := 20\<rparr>"
    unfolding Tbl_QueryParams_Validate_fst Tbl_QueryParams_Validate_snd
    by (auto simp: first_failure_simps)
  then show "Tbl_QueryParams_Validate tq = (None, tq\<lparr>tq_Limit := 20\<rparr>)"
    by (simp add: prod_eq_iff)
next
  assume "Limit q \<noteq> 0 \<and> (Limit q < 1 \<or> MaxPaginationLimit cfg < Limit q)"
  then show "fst (QueryParams_Validate cfg q) = Some (New ''limit out of range'')"
    unfolding QueryParams_Validate_fst by (auto simp: first_failure_simps)
next
  assume "Offset q < 0"
  then show "fst (QueryParams_Validate cfg q) \<noteq> None"
    unfolding QueryParams_Validate_fst by (auto simp: first_failure_simps)
next
  assume "q_Locale q = Some l \<and> \<not> IsSupportedLocale cfg l"
  then show "fst (QueryParams_Validate cfg q) \<noteq> None"
    unfolding QueryParams_Validate_fst by (auto simp: first_failure_simps)
qed (rule QueryParams_Validate_snd QueryParams_Validate_fst Tbl_QueryParams_Validate_snd
       Tbl_QueryParams_Validate_fst)+

theorem QueryParams_Validate_contract_witness:
  "QueryParams_Validate
     \<lparr>AllowedTypes = [''posts''], SupportedLocales = [''en'', ''fr''], DefaultLocale = ''en'',
      PaginationLimit = 20, MaxPaginationLimit = 100, MaxContentLength = 10240\<rparr>
     \<lparr>q_TranslatableID = None, q_Translatable = None, q_Locale = Some ''fr'', q_UserID = None,
      Limit = 0, Offset = 0\<rparr>
   = (None, \<lparr>q_TranslatableID = None, q_Translatable = None, q_Locale = Some ''fr'',
             q_UserID = None, Limit = 20, Offset = 0\<rparr>)
   \<and> fst (QueryParams_Validate
     \<lparr>AllowedTypes = [''posts''], SupportedLocales = [''en'', ''fr''], DefaultLocale = ''en'',
      PaginationLimit = 20, MaxPaginationLimit = 100, MaxContentLength = 10240\<rparr>
     \<lparr>q_TranslatableID = None, q_Translatable = None, q_Locale = None, q_UserID = None,
      Limit = 101, Offset = 0\<rparr>) = Some (New ''limit out of range'')
   \<and> fst (QueryParams_Validate
     \<lparr>AllowedTypes = [''posts''], SupportedLocales = [''en'', ''fr''], DefaultLocale = ''en'',
      PaginationLimit = 20, MaxPaginationLimit = 100, MaxContentLength = 10240\<rparr>
     \<lparr>q_TranslatableID = None, q_Translatable = None, q_Locale = None, q_UserID = None,
      Limit = 20, Offset = - 1\<rparr>) = Some (New ''offset must be non-negative'')
   \<and> Tbl_QueryParams_Validate
     \<lparr>tq_TranslatableID = None, tq_Translatable = None, tq_UserID = None, tq_Limit = 0,
      tq_Offset = 0\<rparr>
   = (None, \<lparr>tq_TranslatableID = None, tq_Translatable = None, tq_UserID = None, tq_Limit = 20,
             tq_Offset = 0\<rparr>)"
proof -
  let ?cfg = "\<lparr>AllowedTypes = [''posts''], SupportedLocales = [''en'', ''fr''],
      DefaultLocale = ''en'', PaginationLimit = 20, MaxPaginationLimit = 100,
      MaxContentLength = 10240\<rparr>"
  let ?q0 = "\<lparr>q_TranslatableID = None, q_Translatable = None, q_Locale = Some ''fr'',
      q_UserID = None, Limit = 0, Offset = 0\<rparr>"
  let ?q1 = "\<lparr>q_TranslatableID = None, q_Translatable = None, q_Locale = None, q_UserID = None,
      Limit = 101, Offset = 0\<rparr>"
  let ?q2 = "\<lparr>q_TranslatableID = None, q_Translatable = None, q_Locale = None, q_UserID = None,
      Limit = 20, Offset = - 1\<rparr>"
  let ?tq = "\<lparr>tq_TranslatableID = None, tq_Translatable = None, tq_UserID = None, tq_Limit = 0,
      tq_Offset = 0\<rparr>"
  have p0: "Limit ?q0 = 0 \<and> 1 \<le> PaginationLimit ?cfg
       \<and> PaginationLimit ?cfg \<le> MaxPaginationLimit ?cfg
       \<and> 0 \<le> Offset ?q0 \<and> (case q_Locale ?q0 of Some l \<Rightarrow> IsSupportedLocale ?cfg l | None \<Rightarrow> True)"
    by (simp add: IsSupportedLocale_def)
  have a: "QueryParams_Validate ?cfg ?q0 = (None, ?q0\<lparr>Limit := PaginationLimit ?cfg\<rparr>)"
    using QueryParams_Validate_contract [of ?cfg ?q0, THEN conjunct2, THEN conjunct2,
            THEN conjunct1, rule_format, OF p0] .
  have p1: "Limit ?q1 \<noteq> 0 \<and> (Limit ?q1 < 1 \<or> MaxPaginationLimit ?cfg < Limit ?q1)" by simp
  have b: "fst (QueryParams_Validate ?cfg ?q1) = Some (New ''limit out of range'')"
    using QueryParams_Validate_contract [of ?cfg ?q1, THEN conjunct2, THEN conjunct2,
            THEN conjunct2, THEN conjunct1, rule_format, OF p1] .
  have c: "fst (QueryParams_Validate ?cfg ?q2) = Some (New ''offset must be non-negative'')"
    using QueryParams_Validate_contract [of ?cfg ?q2, THEN conjunct2, THEN conjunct1]
    by (simp add: first_failure_simps)
  have p3: "tq_Limit ?tq = 0 \<and> 0 \<le> tq_Offset ?tq" by simp
  have d: "Tbl_QueryParams_Validate ?tq = (None, ?tq\<lparr>tq_Limit := 20\<rparr>)"
    using QueryParams_Validate_contract [where tq = ?tq, THEN conjunct2, THEN conjunct2,
            THEN conjunct2, THEN conjunct2, THEN conjunct2, THEN conjunct2, THEN conjunct2,
            THEN conjunct2, rule_format, OF p3] .
  show ?thesis using a b c d by simp
qed

section \<open>The text of the queries\<close>

lemma where_clauses_append:
  "where_clauses n (fs @ [f]) =
     where_clauses n fs @ '' AND '' @ fst f @ '' = $'' @ Itoa (int (n + length fs))"
  by (induction fs arbitrary: n) (simp_all add: ac_simps)

text \<open>The builder holds the clauses of the filters \<open>fs\<close> met so far.\<close>

lemma add_filter_step:
  assumes "b_query b = base @ where_clauses 1 fs"
    and "b_countQuery b = cbase @ where_clauses 1 fs"
    and "b_args b = map snd fs"
    and "b_argCount b = 1 + int (length fs)"
  shows "b_query (add_filter col v b) = base @ where_clauses 1 (fs @ [(col, v)])
       \<and> b_countQuery (add_filter col v b) = cbase @ where_clauses 1 (fs @ [(col, v)])
       \<and> b_args (add_filter col v b) = map snd (fs @ [(col, v)])
       \<and> b_argCount (add_filter col v b) = 1 + int (length (fs @ [(col, v)]))"
  using assms by (simp add: add_filter_def Let_def where_clauses_append add.commute)

lemma optional_filter_step:
  assumes "b_query b = base @ where_clauses 1 fs"
    and "b_countQuery b = cbase @ where_clauses 1 fs"
    and "b_args b = map snd fs"
    and "b_argCount b = 1 + int (length fs)"
  shows "b_query (case x of Some v \<Rightarrow> add_filter col (f v) b | None \<Rightarrow> b) =
           base @ where_clauses 1 (fs @ (case x of Some v \<Rightarrow> [(col, f v)] | None \<Rightarrow> []))
       \<and> b_countQuery (case x of Some v \<Rightarrow> add_filter col (f v) b | None \<Rightarrow> b) =
           cbase @ where_clauses 1 (fs @ (case x of Some v \<Rightarrow> [(col, f v)] | None \<Rightarrow> []))
       \<and> b_args (case x of Some v \<Rightarrow> add_filter col (f v) b | None \<Rightarrow> b) =
           map snd (fs @ (case x of Some v \<Rightarrow> [(col, f v)] | None \<Rightarrow> []))
       \<and> b_argCount (case x of Some v \<Rightarrow> add_filter col (f v) b | None \<Rightarrow> b) =
           1 + int (length (fs @ (case x of Some v \<Rightarrow> [(col, f v)] | None \<Rightarrow> [])))"
proof (cases x)
  case None
  then show ?thesis using assms by simp
next
  case (Some v)
  then show ?thesis using add_filter_step [OF assms, where col = col and v = "f v"] by simp
qed

lemma queryFromDB_filters_eq:
  "b_query (queryFromDB_filters p) =
     (sql_line ''SELECT id, user_id, translatable_id, translatable, locale, content, updated_at, created_at''
        @ sql_line ''FROM translations'' @ sql_line ''WHERE 1=1'' @ sql_end)
     @ where_clauses 1 (present_filters p)
   \<and> b_countQuery (queryFromDB_filters p) =
     ''SELECT COUNT(*) FROM translations WHERE 1=1'' @ where_clauses 1 (present_filters p)
   \<and> b_args (queryFromDB_filters p) = map snd (present_filters p)
   \<and> b_argCount (queryFromDB_filters p) = 1 + int (length (present_filters p))"
proof -
  let ?base = "sql_line ''SELECT id, user_id, translatable_id, translatable, locale, content, updated_at, created_at''
        @ sql_line ''FROM translations'' @ sql_line ''WHERE 1=1'' @ sql_end"
  let ?cbase = "''SELECT COUNT(*) FROM translations WHERE 1=1''"
  let ?b0 = "\<lparr>b_query = ?base, b_countQuery = ?cbase, b_args = [], b_argCount = 1\<rparr>"
  let ?f1 = "case q_TranslatableID p of Some v \<Rightarrow> [(''translatable_id'', ArgUUID v)] | None \<Rightarrow> []"
  let ?f2 = "case q_Translatable p of Some v \<Rightarrow> [(''translatable'', ArgString v)] | None \<Rightarrow> []"
  let ?f3 = "case q_Locale p of Some v \<Rightarrow> [(''locale'', ArgString v)] | None \<Rightarrow> []"
  let ?f4 = "case q_UserID p of Some v \<Rightarrow> [(''user_id'', ArgUUID v)] | None \<Rightarrow> []"
  let ?b1 = "case q_TranslatableID p of
               Some v \<Rightarrow> add_filter ''translatable_id'' (ArgUUID v) ?b0 | None \<Rightarrow> ?b0"
  let ?b2 = "case q_Translatable p of
               Some v \<Rightarrow> add_filter ''translatable'' (ArgString v) ?b1 | None \<Rightarrow> ?b1"
  let ?b3 = "case q_Locale p of
               Some v \<Rightarrow> add_filter ''locale'' (ArgString v) ?b2 | None \<Rightarrow> ?b2"
  let ?b4 = "case q_UserID p of
               Some v \<Rightarrow> add_filter ''user_id'' (ArgUUID v) ?b3 | None \<Rightarrow> ?b3"
  have s0: "b_query ?b0 = ?base @ where_clauses 1 []" "b_countQuery ?b0 = ?cbase @ where_clauses 1 []"
    "b_args ?b0 = map snd []" "b_argCount ?b0 = 1 + int (length [])"
    by simp_all
  note s1 = optional_filter_step [OF s0, where x = "q_TranslatableID p" and col = "''translatable_id''" and f = ArgUUID]
  note s2 = optional_filter_step [OF s1 [THEN conjunct1] s1 [THEN conjunct2, THEN conjunct1]
      s1 [THEN conjunct2, THEN conjunct2, THEN conjunct1]
      s1 [THEN conjunct2, THEN conjunct2, THEN conjunct2],
      where x = "q_Translatable p" and col = "''translatable''" and f = ArgString]
  note s3 = optional_filter_step [OF s2 [THEN conjunct1] s2 [THEN conjunct2, THEN conjunct1]
      s2 [THEN conjunct2, THEN conjunct2, THEN conjunct1]
      s2 [THEN conjunct2, THEN conjunct2, THEN conjunct2],
      where x = "q_Locale p" and col = "''locale''" and f = ArgString]
  note s4 = optional_filter_step [OF s3 [THEN conjunct1] s3 [THEN conjunct2, THEN conjunct1]
      s3 [THEN conjunct2, THEN conjunct2, THEN conjunct1]
      s3 [THEN conjunct2, THEN conjunct2, THEN conjunct2],
      where x = "q_UserID p" and col = "''user_id''" and f = ArgUUID]
  have q: "queryFromDB_filters p = ?b4"
    by (simp add: queryFromDB_filters_def Let_def)
  have f: "present_filters p = (((([] @ ?f1) @ ?f2) @ ?f3) @ ?f4)"
    by (simp add: present_filters_def)
  show ?thesis unfolding q f by (rule s4)
qed

lemma tbl_optional_filter_step:
  assumes "tb_query b = base @ where_clauses 1 fs"
    and "tb_args b = map snd fs"
    and "tb_argCount b = 1 + int (length fs)"
  shows "tb_query (case x of Some v \<Rightarrow> tbl_add_filter col (f v) b | None \<Rightarrow> b) =
           base @ where_clauses 1 (fs @ (case x of Some v \<Rightarrow> [(col, f v)] | None \<Rightarrow> []))
       \<and> tb_args (case x of Some v \<Rightarrow> tbl_add_filter col (f v) b | None \<Rightarrow> b) =
           map snd (fs @ (case x of Some v \<Rightarrow> [(col, f v)] | None \<Rightarrow> []))
       \<and> tb_argCount (case x of Some v \<Rightarrow> tbl_add_filter col (f v) b | None \<Rightarrow> b) =
           1 + int (length (fs @ (case x of Some v \<Rightarrow> [(col, f v)] | None \<Rightarrow> [])))"
proof (cases x)
  case None
  then show ?thesis using assms by simp
next
  case (Some v)
  then show ?thesis
    using assms by (simp add: tbl_add_filter_def where_clauses_append add.commute)
qed

lemma repository_Query_filters_eq:
  "tb_query (repository_Query_filters p) =
     (sql_line ''SELECT id, user_id, translatable_id, translatable, content, updated_at, created_at''
        @ sql_line ''FROM translatable'' @ sql_line ''WHERE 1=1'' @ sql_end)
     @ where_clauses 1 (tbl_present_filters p)
   \<and> tb_args (repository_Query_filters p) = map snd (tbl_present_filters p)
   \<and> tb_argCount (repository_Query_filters p) = 1 + int (length (tbl_present_filters p))"
proof -
  let ?base = "sql_line ''SELECT id, user_id, translatable_id, translatable, content, updated_at, created_at''
        @ sql_line ''FROM translatable'' @ sql_line ''WHERE 1=1'' @ sql_end"
  let ?b0 = "\<lparr>tb_query = ?base, tb_args = [], tb_argCount = 1\<rparr>"
  let ?f1 = "case tq_TranslatableID p of Some v \<Rightarrow> [(''translatable_id'', ArgUUID v)] | None \<Rightarrow> []"
  let ?f2 = "case tq_Translatable p of Some v \<Rightarrow> [(''translatable'', ArgString v)] | None \<Rightarrow> []"
  let ?f3 = "case tq_UserID p of Some v \<Rightarrow> [(''user_id'', ArgUUID v)] | None \<Rightarrow> []"
  let ?b1 = "case tq_TranslatableID p of
               Some v \<Rightarrow> tbl_add_filter ''translatable_id'' (ArgUUID v) ?b0 | None \<Rightarrow> ?b0"
  let ?b2 = "case tq_Translatable p of
               Some v \<Rightarrow> tbl_add_filter ''translatable'' (ArgString v) ?b1 | None \<Rightarrow> ?b1"
  let ?b3 = "case tq_UserID p of
               Some v \<Rightarrow> tbl_add_filter ''user_id'' (ArgUUID v) ?b2 | None \<Rightarrow> ?b2"
  have s0: "tb_query ?b0 = ?base @ where_clauses 1 []"
    "tb_args ?b0 = map snd []" "tb_argCount ?b0 = 1 + int (length [])"
    by simp_all
  note s1 = tbl_optional_filter_step [OF s0,
      where x = "tq_TranslatableID p" and col = "''translatable_id''" and f = ArgUUID]
  note s2 = tbl_optional_filter_step [OF s1 [THEN conjunct1] s1 [THEN conjunct2, THEN conjunct1]
      s1 [THEN conjunct2, THEN conjunct2],
      where x = "tq_Translatable p" and col = "''translatable''" and f = ArgString]
  note s3 = tbl_optional_filter_step [OF s2 [THEN conjunct1] s2 [THEN conjunct2, THEN conjunct1]
      s2 [THEN conjunct2, THEN conjunct2],
      where x = "tq_UserID p" and col = "''user_id''" and f = ArgUUID]
  have q: "repository_Query_filters p = ?b3"
    by (simp add: repository_Query_filters_def Let_def)
  have f: "tbl_present_filters p = ((([] @ ?f1) @ ?f2) @ ?f3)"
    by (simp add: tbl_present_filters_def)
  show ?thesis unfolding q f by (rule s3)
qed

lemma queryFromDB_issued:
  "issued (snd (queryFromDB db p w)) =
     issued w @ (b_countQuery (queryFromDB_filters p), b_args (queryFromDB_filters p))
       # (if isl (fst (QueryRowInt db (b_countQuery (queryFromDB_filters p))
                        (b_args (queryFromDB_filters p)) (db_state w)))
          then [] else [queryFromDB_page p])"
  by (simp add: queryFromDB_def Let_def db_QueryRowInt_eq db_Query_eq split: sum.splits)

lemma repository_Query_issued:
  "issued (snd (repository_Query db p w)) = issued w @ [repository_Query_statement p]"
  by (simp add: repository_Query_def db_Query_eq split: sum.splits option.splits)

section \<open>Claims about the text of the queries\<close>

text \<open>
  Claim C6.  The page query is the \<open>SELECT ... WHERE 1=1\<close> text, then one clause
  \<open> AND <column> = $<i>\<close> for each parameter that is not nil, in the order
  \<open>translatable_id\<close>, \<open>translatable\<close>, \<open>locale\<close> (where it is modelled), \<open>user_id\<close>, with
  the placeholders numbered from 1 without a gap, then \<open>ORDER BY created_at DESC LIMIT\<close>
  and \<open>OFFSET\<close> with the next two numbers; its arguments are the filters' values in the
  order of the clauses, then the limit, then the offset.  The count query has the same
  clauses and the filters' values as its arguments, and neither limit nor offset; it is
  issued first, and the page query after it unless the count failed.
\<close>

theorem query_text_and_arguments:
  "fst (queryFromDB_page p) =
     sql_line ''SELECT id, user_id, translatable_id, translatable, locale, content, updated_at, created_at''
     @ sql_line ''FROM translations'' @ sql_line ''WHERE 1=1'' @ sql_end
     @ where_clauses 1 (present_filters p)
     @ '' ORDER BY created_at DESC''
     @ '' LIMIT $'' @ Itoa (int (length (present_filters p)) + 1)
     @ '' OFFSET $'' @ Itoa (int (length (present_filters p)) + 2)
   \<and> snd (queryFromDB_page p) =
     map snd (present_filters p) @ [ArgInt (Limit p), ArgInt (Offset p)]
   \<and> b_countQuery (queryFromDB_filters p) =
     ''SELECT COUNT(*) FROM translations WHERE 1=1'' @ where_clauses 1 (present_filters p)
   \<and> b_args (queryFromDB_filters p) = map snd (present_filters p)
   \<and> issued (snd (queryFromDB db p w)) =
     issued w @ (b_countQuery (queryFromDB_filters p), b_args (queryFromDB_filters p))
       # (if isl (fst (QueryRowInt db (b_countQuery (queryFromDB_filters p))
                        (b_args (queryFromDB_filters p)) (db_state w)))
          then [] else [queryFromDB_page p])
   \<and> fst (repository_Query_statement tp) =
     sql_line ''SELECT id, user_id, translatable_id, translatable, content, updated_at, created_at''
     @ sql_line ''FROM translatable'' @ sql_line ''WHERE 1=1'' @ sql_end
     @ where_clauses 1 (tbl_present_filters tp)
     @ '' ORDER BY created_at DESC''
     @ '' LIMIT $'' @ Itoa (int (length (tbl_present_filters tp)) + 1)
     @ '' OFFSET $'' @ Itoa (int (length (tbl_present_filters tp)) + 2)
   \<and> snd (repository_Query_statement tp) =
     map snd (tbl_present_filters tp) @ [ArgInt (tq_Limit tp), ArgInt (tq_Offset tp)]
   \<and> issued (snd (repository_Query tdb tp tw)) = issued tw @ [repository_Query_statement tp]"
proof (intro conjI)
  note e = queryFromDB_filters_eq [of p]
  show "fst (queryFromDB_page p) =
     sql_line ''SELECT id, user_id, translatable_id, translatable, locale, content, updated_at, created_at''
     @ sql_line ''FROM translations'' @ sql_line ''WHERE 1=1'' @ sql_end
     @ where_clauses 1 (present_filters p)
     @ '' ORDER BY created_at DESC''
     @ '' LIMIT $'' @ Itoa (int (length (present_filters p)) + 1)
     @ '' OFFSET $'' @ Itoa (int (length (present_filters p)) + 2)"
    using e by (simp add: queryFromDB_page_def Let_def add.commute)
  show "snd (queryFromDB_page p) =
     map snd (present_filters p) @ [ArgInt (Limit p), ArgInt (Offset p)]"
    using e by (simp add: queryFromDB_page_def Let_def)
  show "b_countQuery (queryFromDB_filters p) =
     ''SELECT COUNT(*) FROM translations WHERE 1=1'' @ where_clauses 1 (present_filters p)"
    using e by blast
  show "b_args (queryFromDB_filters p) = map snd (present_filters p)"
    using e by blast
  note t = repository_Query_filters_eq [of tp]
  show "fst (repository_Query_statement tp) =
     sql_line ''SELECT id, user_id, translatable_id, translatable, content, updated_at, created_at''
     @ sql_line ''FROM translatable'' @ sql_line ''WHERE 1=1'' @ sql_end
     @ where_clauses 1 (tbl_present_filters tp)
     @ '' ORDER BY created_at DESC''
     @ '' LIMIT $'' @ Itoa (int (length (tbl_present_filters tp)) + 1)
     @ '' OFFSET $'' @ Itoa (int (length (tbl_present_filters tp)) + 2)"
    using t by (simp add: repository_Query_statement_def Let_def add.commute)
  show "snd (repository_Query_statement tp) =
     map snd (tbl_present_filters tp) @ [ArgInt (tq_Limit tp), ArgInt (tq_Offset tp)]"
    using t by (simp add: repository_Query_statement_def Let_def)
qed (rule queryFromDB_issued repository_Query_issued)+

theorem query_text_and_arguments_witness:
  "queryFromDB_page
     \<lparr>q_TranslatableID = None, q_Translatable = Some ''posts'', q_Locale = None,
      q_UserID = Some (UUID ''u''), Limit = 5, Offset = 10\<rparr> =
     (sql_line ''SELECT id, user_id, translatable_id, translatable, locale, content, updated_at, created_at''
      @ sql_line ''FROM translations'' @ sql_line ''WHERE 1=1'' @ sql_end
      @ '' AND translatable = $1 AND user_id = $2 ORDER BY created_at DESC LIMIT $3 OFFSET $4'',
      [ArgString ''posts'', ArgUUID (UUID ''u''), ArgInt 5, ArgInt 10])
   \<and> b_countQuery (queryFromDB_filters
     \<lparr>q_TranslatableID = None, q_Translatable = Some ''posts'', q_Locale = None,
      q_UserID = Some (UUID ''u''), Limit = 5, Offset = 10\<rparr>) =
     ''SELECT COUNT(*) FROM translations WHERE 1=1 AND translatable = $1 AND user_id = $2''
   \<and> b_args (queryFromDB_filters
     \<lparr>q_TranslatableID = None, q_Translatable = Some ''posts'', q_Locale = None,
      q_UserID = Some (UUID ''u''), Limit = 5, Offset = 10\<rparr>) =
     [ArgString ''posts'', ArgUUID (UUID ''u'')]
   \<and> repository_Query_statement
     \<lparr>tq_TranslatableID = Some (UUID ''t''), tq_Translatable = None,
      tq_UserID = None, tq_Limit = 20, tq_Offset = 0\<rparr> =
     (sql_line ''SELECT id, user_id, translatable_id, translatable, content, updated_at, created_at''
      @ sql_line ''FROM translatable'' @ sql_line ''WHERE 1=1'' @ sql_end
      @ '' AND translatable_id = $1 ORDER BY created_at DESC LIMIT $2 OFFSET $3'',
      [ArgUUID (UUID ''t''), ArgInt 20, ArgInt 0])"
proof -
  let ?p = "\<lparr>q_TranslatableID = None, q_Translatable = Some ''posts'', q_Locale = None,
      q_UserID = Some (UUID ''u''), Limit = 5, Offset = 10\<rparr>"
  let ?tp = "\<lparr>tq_TranslatableID = Some (UUID ''t''), tq_Translatable = None,
      tq_UserID = None, tq_Limit = 20, tq_Offset = 0\<rparr>"
  have f: "present_filters ?p = [(''translatable'', ArgString ''posts''), (''user_id'', ArgUUID (UUID ''u''))]"
    by (simp add: present_filters_def)
  have tf: "tbl_present_filters ?tp = [(''translatable_id'', ArgUUID (UUID ''t''))]"
    by (simp add: tbl_present_filters_def)
  note t = query_text_and_arguments [where p = ?p and tp = ?tp, unfolded f tf]
  have a: "fst (queryFromDB_page ?p) =
      sql_line ''SELECT id, user_id, translatable_id, translatable, locale, content, updated_at, created_at''
      @ sql_line ''FROM translations'' @ sql_line ''WHERE 1=1'' @ sql_end
      @ '' AND translatable = $1 AND user_id = $2 ORDER BY created_at DESC LIMIT $3 OFFSET $4''"
    using t [THEN conjunct1] by (simp add: Itoa_def)
  have b: "snd (queryFromDB_page ?p) = [ArgString ''posts'', ArgUUID (UUID ''u''), ArgInt 5, ArgInt 10]"
    using t [THEN conjunct2, THEN conjunct1] by simp
  have c: "b_countQuery (queryFromDB_filters ?p) =
     ''SELECT COUNT(*) FROM translations WHERE 1=1 AND translatable = $1 AND user_id = $2''"
    using t [THEN conjunct2, THEN conjunct2, THEN conjunct1] by (simp add: Itoa_def)
  have d: "b_args (queryFromDB_filters ?p) = [ArgString ''posts'', ArgUUID (UUID ''u'')]"
    using t [THEN conjunct2, THEN conjunct2, THEN conjunct2, THEN conjunct1] by simp
  have e: "fst (repository_Query_statement ?tp) =
      sql_line ''SELECT id, user_id, translatable_id, translatable, content, updated_at, created_at''
      @ sql_line ''FROM translatable'' @ sql_line ''WHERE 1=1'' @ sql_end
      @ '' AND translatable_id = $1 ORDER BY created_at DESC LIMIT $2 OFFSET $3''"
    using t [THEN conjunct2, THEN conjunct2, THEN conjunct2, THEN conjunct2, THEN conjunct2,
             THEN conjunct1]
    by (simp add: Itoa_def)
  have g: "snd (repository_Query_statement ?tp) = [ArgUUID (UUID ''t''), ArgInt 20, ArgInt 0]"
    using t [THEN conjunct2, THEN conjunct2, THEN conjunct2, THEN conjunct2, THEN conjunct2,
             THEN conjunct2, THEN conjunct1]
    by simp
  show ?thesis using a b c d e g by (simp add: prod_eq_iff)
qed

end
